theory Spec2Isabelle
  imports Main "HOL-Library.Multiset" "HOL-Library.Char_ord" "HOL-Library.List_Lexorder"
begin

section \<open>Data model\<close>

text \<open>
  The two entities of \<^verbatim>\<open>inventory.service.ts\<close>. The TypeScript interfaces \<^verbatim>\<open>Box\<close> and
  \<^verbatim>\<open>Item\<close> both have fields \<^verbatim>\<open>id\<close> and \<^verbatim>\<open>name\<close>; the record fields carry the entity
  as a prefix where the names would collide. \<^verbatim>\<open>createdAt\<close> and \<^verbatim>\<open>timestamp\<close> hold what
  \<^verbatim>\<open>Date.now()\<close> returns, a whole number of milliseconds.
\<close>

record Box =
  box_id :: string
  box_name :: string
  isFull :: bool
  createdAt :: int

record Item =
  item_id :: string
  boxId :: string
  boxName :: string
  imageUrl :: string
  item_name :: string
  description :: string
  tags :: "string list"
  timestamp :: int

text \<open>
  \<^verbatim>\<open>Partial<Item>\<close>: every field may be missing (\<^verbatim>\<open>undefined\<close>), which is \<open>None\<close>.
\<close>

record ItemPartial =
  p_id :: "string option"
  p_boxId :: "string option"
  p_boxName :: "string option"
  p_imageUrl :: "string option"
  p_name :: "string option"
  p_description :: "string option"
  p_tags :: "string list option"
  p_timestamp :: "int option"

text \<open>\<^verbatim>\<open>Partial<Omit<Item, 'id'>>\<close>: the same without the \<^verbatim>\<open>id\<close> field.\<close>

record ItemUpdates =
  u_boxId :: "string option"
  u_boxName :: "string option"
  u_imageUrl :: "string option"
  u_name :: "string option"
  u_description :: "string option"
  u_tags :: "string list option"
  u_timestamp :: "int option"

section \<open>The platform: strings, sorting, JSON, console, storage\<close>

subsection \<open>JavaScript values\<close>

text \<open>
  \<^verbatim>\<open>a || d\<close> on an optional string: \<^verbatim>\<open>undefined\<close> and the empty string are falsy, every
  other string is truthy. On an optional array only \<^verbatim>\<open>undefined\<close> is falsy.
\<close>

definition str_or :: "string option \<Rightarrow> string \<Rightarrow> string" where
  "str_or a d = (case a of None \<Rightarrow> d | Some s \<Rightarrow> if s = [] then d else s)"

definition arr_or :: "'a list option \<Rightarrow> 'a list \<Rightarrow> 'a list" where
  "arr_or a d = (case a of None \<Rightarrow> d | Some xs \<Rightarrow> xs)"

text \<open>
  \<^verbatim>\<open>if (s)\<close> on what \<^verbatim>\<open>localStorage.getItem\<close> returns: \<^verbatim>\<open>null\<close> and the empty string are
  falsy.
\<close>

definition truthy :: "string option \<Rightarrow> bool" where
  "truthy a = (case a of None \<Rightarrow> False | Some s \<Rightarrow> s \<noteq> [])"

text \<open>
  \<^verbatim>\<open>String.prototype.trim\<close> strips white space and line terminators from both ends. A
  \<^typ>\<open>char\<close> is one of the code units 0 to 255; the white space among them is tab, line
  feed, vertical tab, form feed, carriage return, space and the no-break space.
\<close>

definition is_ws :: "char \<Rightarrow> bool" where
  "is_ws c = (of_char c \<in> {9, 10, 11, 12, 13, 32, 160 :: nat})"

definition trim :: "string \<Rightarrow> string" where
  "trim s = rev (dropWhile is_ws (rev (dropWhile is_ws s)))"

text \<open>
  \<^verbatim>\<open>Array.prototype.sort(cmp)\<close> is stable: with a consistent comparator its result is the
  one stable arrangement, which insertion from the right computes. \<^verbatim>\<open>cmp a b \<le> 0\<close> keeps
  \<open>a\<close> in front of \<open>b\<close>.
\<close>

fun insert_by :: "('a \<Rightarrow> 'a \<Rightarrow> int) \<Rightarrow> 'a \<Rightarrow> 'a list \<Rightarrow> 'a list" where
  "insert_by cmp x [] = [x]"
| "insert_by cmp x (y # ys) = (if cmp x y \<le> 0 then x # y # ys else y # insert_by cmp x ys)"

definition js_sort :: "('a \<Rightarrow> 'a \<Rightarrow> int) \<Rightarrow> 'a list \<Rightarrow> 'a list" where
  "js_sort cmp xs = foldr (insert_by cmp) xs []"

subsection \<open>JSON\<close>

text \<open>
  \<^verbatim>\<open>JSON.stringify\<close> and \<^verbatim>\<open>JSON.parse\<close> belong to the platform, not to the repository:
  they are a parameter of every function that calls them. \<open>None\<close> is the
  \<^verbatim>\<open>SyntaxError\<close> that \<^verbatim>\<open>JSON.parse\<close> throws. The source assigns what \<^verbatim>\<open>JSON.parse\<close>
  returns to a \<^verbatim>\<open>Box[]\<close> or an \<^verbatim>\<open>Item[]\<close> without a check; a text that parses to
  a value of another shape is not represented.
\<close>

record JSON =
  stringify_boxes :: "Box list \<Rightarrow> string"
  parse_boxes :: "string \<Rightarrow> Box list option"
  stringify_items :: "Item list \<Rightarrow> string"
  parse_items :: "string \<Rightarrow> Item list option"

subsection \<open>Errors and the console\<close>

datatype error = DatabaseNotInitialized | RequestError | SyntaxError

datatype level = Log | Error

subsection \<open>The IndexedDB database\<close>

text \<open>
  \<^verbatim>\<open>onupgradeneeded\<close> creates two object stores with key path \<^verbatim>\<open>id\<close>. An object store
  holds one record per key and \<^verbatim>\<open>getAll\<close> returns the records in ascending key order:
  a store is an association list kept sorted by key. Every database that has opened has
  both stores.
\<close>

record database =
  boxes_store :: "(string \<times> Box) list"
  items_store :: "(string \<times> Item) list"

fun store_put :: "string \<Rightarrow> 'a \<Rightarrow> (string \<times> 'a) list \<Rightarrow> (string \<times> 'a) list" where
  "store_put k v [] = [(k, v)]"
| "store_put k v ((k', v') # r) =
     (if k = k' then (k, v) # r
      else if k < k' then (k, v) # (k', v') # r
      else (k', v') # store_put k v r)"

definition store_delete :: "string \<Rightarrow> (string \<times> 'a) list \<Rightarrow> (string \<times> 'a) list" where
  "store_delete k r = filter (\<lambda>kv. fst kv \<noteq> k) r"

definition store_getAll :: "(string \<times> 'a) list \<Rightarrow> 'a list" where
  "store_getAll r = map snd r"

text \<open>
  The store name passed to the helpers (\<^verbatim>\<open>'boxes'\<close> or \<^verbatim>\<open>'items'\<close>) selects an object
  store of the database and, with it, the type of its records and their key path.
\<close>

record 'a store_name =
  get_store :: "database \<Rightarrow> (string \<times> 'a) list"
  set_store :: "(string \<times> 'a) list \<Rightarrow> database \<Rightarrow> database"
  keyPath :: "'a \<Rightarrow> string"

definition BOXES :: "Box store_name" where
  "BOXES = \<lparr>get_store = boxes_store, set_store = (\<lambda>r d. d\<lparr>boxes_store := r\<rparr>),
            keyPath = box_id\<rparr>"

definition ITEMS :: "Item store_name" where
  "ITEMS = \<lparr>get_store = items_store, set_store = (\<lambda>r d. d\<lparr>items_store := r\<rparr>),
            keyPath = item_id\<rparr>"

section \<open>The state of the application\<close>

text \<open>
  The three signals of \<^verbatim>\<open>InventoryService\<close>, its \<^verbatim>\<open>db\<close> handle (\<^verbatim>\<open>null\<close> until the
  database has opened), the browser's \<^verbatim>\<open>localStorage\<close>, and the console. \<open>idb_errors\<close>
  is the environment's part in IndexedDB: the outcome of each coming request in turn,
  \<open>True\<close> when the request fires \<^verbatim>\<open>onerror\<close>; once the list is used up every request
  succeeds.
\<close>

record world =
  boxes :: "Box list"
  items :: "Item list"
  currentBoxId :: "string option"
  db :: "database option"
  localStorage :: "string \<rightharpoonup> string"
  console :: "(level \<times> string) list"
  idb_errors :: "bool list"

definition console_log :: "string \<Rightarrow> world \<Rightarrow> world" where
  "console_log msg w = w\<lparr>console := console w @ [(Log, msg)]\<rparr>"

definition console_error :: "string \<Rightarrow> world \<Rightarrow> world" where
  "console_error msg w = w\<lparr>console := console w @ [(Error, msg)]\<rparr>"

text \<open>The next request's outcome is taken from \<open>idb_errors\<close>.\<close>

definition next_request :: "world \<Rightarrow> bool \<times> world" where
  "next_request w =
     (case idb_errors w of [] \<Rightarrow> (False, w) | e # es \<Rightarrow> (e, w\<lparr>idb_errors := es\<rparr>))"

section \<open>InventoryService on IndexedDB\<close>

subsection \<open>Derived views\<close>

definition currentBox :: "world \<Rightarrow> Box option" where
  "currentBox w =
     (case currentBoxId w of None \<Rightarrow> None
      | Some c \<Rightarrow> find (\<lambda>b. box_id b = c) (boxes w))"

definition itemsInCurrentBox :: "world \<Rightarrow> Item list" where
  "itemsInCurrentBox w =
     js_sort (\<lambda>a b. timestamp b - timestamp a)
       (filter (\<lambda>i. Some (boxId i) = currentBoxId w) (items w))"

subsection \<open>IndexedDB helpers\<close>

text \<open>
  Each helper returns a promise: \<open>Inl\<close> is its rejection, \<open>Inr\<close> its resolution.
\<close>

definition putToStore :: "'a store_name \<Rightarrow> 'a \<Rightarrow> world \<Rightarrow> (error + unit) \<times> world" where
  "putToStore storeName v w =
     (case db w of
        None \<Rightarrow> (Inl DatabaseNotInitialized, w)
      | Some d \<Rightarrow>
          (case next_request w of
             (True, w') \<Rightarrow> (Inl RequestError, w')
           | (False, w') \<Rightarrow>
               (Inr (),
                w'\<lparr>db := Some (set_store storeName
                    (store_put (keyPath storeName v) v (get_store storeName d)) d)\<rparr>)))"

definition getAllFromStore :: "'a store_name \<Rightarrow> world \<Rightarrow> (error + 'a list) \<times> world" where
  "getAllFromStore storeName w =
     (case db w of
        None \<Rightarrow> (Inl DatabaseNotInitialized, w)
      | Some d \<Rightarrow>
          (case next_request w of
             (True, w') \<Rightarrow> (Inl RequestError, w')
           | (False, w') \<Rightarrow> (Inr (store_getAll (get_store storeName d)), w')))"

definition deleteFromStore :: "'a store_name \<Rightarrow> string \<Rightarrow> world \<Rightarrow> (error + unit) \<times> world" where
  "deleteFromStore storeName k w =
     (case db w of
        None \<Rightarrow> (Inl DatabaseNotInitialized, w)
      | Some d \<Rightarrow>
          (case next_request w of
             (True, w') \<Rightarrow> (Inl RequestError, w')
           | (False, w') \<Rightarrow>
               (Inr (),
                w'\<lparr>db := Some (set_store storeName
                    (store_delete k (get_store storeName d)) d)\<rparr>)))"

subsection \<open>Public API\<close>

text \<open>
  \<^verbatim>\<open>crypto.randomUUID()\<close> and \<^verbatim>\<open>Date.now()\<close> are inputs: \<open>uuid\<close> and \<open>now\<close>. Each
  operation updates the signals first and then awaits the store; the pair returned is
  the settled promise and the state it leaves.
\<close>

definition addBox :: "string \<Rightarrow> int \<Rightarrow> string \<Rightarrow> world \<Rightarrow> (error + unit) \<times> world" where
  "addBox uuid now name w =
     (let newBox = \<lparr>box_id = uuid, box_name = name, isFull = False, createdAt = now\<rparr>;
          w1 = w\<lparr>boxes := newBox # boxes w\<rparr>;
          w2 = w1\<lparr>currentBoxId := Some (box_id newBox)\<rparr>
      in putToStore BOXES newBox w2)"

definition addItem ::
  "string \<Rightarrow> int \<Rightarrow> string \<Rightarrow> ItemPartial \<Rightarrow> world \<Rightarrow> (error + unit) \<times> world" where
  "addItem uuid now bid itemData w =
     (case find (\<lambda>b. box_id b = bid) (boxes w) of
        None \<Rightarrow> (Inr (), w)
      | Some box \<Rightarrow>
          (let newItem = \<lparr>item_id = uuid, boxId = bid, boxName = box_name box,
                 imageUrl = str_or (p_imageUrl itemData) '''',
                 item_name = str_or (p_name itemData) ''Unknown Item'',
                 description = str_or (p_description itemData) '''',
                 tags = arr_or (p_tags itemData) [],
                 timestamp = now\<rparr>
           in putToStore ITEMS newItem (w\<lparr>items := newItem # items w\<rparr>)))"

definition updateBoxStatus :: "string \<Rightarrow> bool \<Rightarrow> world \<Rightarrow> (error + unit) \<times> world" where
  "updateBoxStatus bid full w =
     (case find (\<lambda>b. box_id b = bid) (boxes w) of
        None \<Rightarrow> (Inr (), w)
      | Some box \<Rightarrow>
          (let updatedBox = box\<lparr>isFull := full\<rparr>
           in putToStore BOXES updatedBox
                (w\<lparr>boxes := map (\<lambda>b. if box_id b = bid then updatedBox else b) (boxes w)\<rparr>)))"

definition selectBox :: "string \<Rightarrow> world \<Rightarrow> world" where
  "selectBox bid w = w\<lparr>currentBoxId := Some bid\<rparr>"

text \<open>\<^verbatim>\<open>{ ...item, ...updates }\<close>: every field present in \<open>updates\<close> replaces the item's.\<close>

definition merge_updates :: "Item \<Rightarrow> ItemUpdates \<Rightarrow> Item" where
  "merge_updates i u =
     \<lparr>item_id = item_id i,
      boxId = (case u_boxId u of None \<Rightarrow> boxId i | Some v \<Rightarrow> v),
      boxName = (case u_boxName u of None \<Rightarrow> boxName i | Some v \<Rightarrow> v),
      imageUrl = (case u_imageUrl u of None \<Rightarrow> imageUrl i | Some v \<Rightarrow> v),
      item_name = (case u_name u of None \<Rightarrow> item_name i | Some v \<Rightarrow> v),
      description = (case u_description u of None \<Rightarrow> description i | Some v \<Rightarrow> v),
      tags = (case u_tags u of None \<Rightarrow> tags i | Some v \<Rightarrow> v),
      timestamp = (case u_timestamp u of None \<Rightarrow> timestamp i | Some v \<Rightarrow> v)\<rparr>"

definition updateItem :: "string \<Rightarrow> ItemUpdates \<Rightarrow> world \<Rightarrow> (error + unit) \<times> world" where
  "updateItem iid updates w =
     (case find (\<lambda>i. item_id i = iid) (items w) of
        None \<Rightarrow> (Inr (), w)
      | Some item \<Rightarrow>
          (let updatedItem = merge_updates item updates
           in putToStore ITEMS updatedItem
                (w\<lparr>items := map (\<lambda>i. if item_id i = iid then updatedItem else i) (items w)\<rparr>)))"

definition deleteItem :: "string \<Rightarrow> world \<Rightarrow> (error + unit) \<times> world" where
  "deleteItem iid w =
     deleteFromStore ITEMS iid (w\<lparr>items := filter (\<lambda>i. item_id i \<noteq> iid) (items w)\<rparr>)"

section \<open>AppComponent\<close>

text \<open>
  \<^verbatim>\<open>createNewBox\<close> is the caller of \<^verbatim>\<open>addBox\<close>: it guards against a blank name and does
  not await the promise.
\<close>

definition createNewBox :: "string \<Rightarrow> int \<Rightarrow> string \<Rightarrow> world \<Rightarrow> world" where
  "createNewBox uuid now name w =
     (if trim name = [] then w else snd (addBox uuid now (trim name) w))"

definition backToBoxList :: "world \<Rightarrow> world" where
  "backToBoxList w = w\<lparr>currentBoxId := None\<rparr>"

section \<open>Start-up on IndexedDB: migration and load\<close>

definition STORAGE_KEY_BOXES :: string where
  "STORAGE_KEY_BOXES = ''clutter_boxes''"

definition STORAGE_KEY_ITEMS :: string where
  "STORAGE_KEY_ITEMS = ''clutter_items''"

definition removeItem :: "string \<Rightarrow> world \<Rightarrow> world" where
  "removeItem k w = w\<lparr>localStorage := (localStorage w)(k := None)\<rparr>"

text \<open>
  \<^verbatim>\<open>for (const r of rs) await this.putToStore(store, r)\<close>: the first rejected put ends
  the loop, as the exception it throws into the enclosing \<^verbatim>\<open>try\<close> does.
\<close>

fun putAll :: "'a store_name \<Rightarrow> 'a list \<Rightarrow> world \<Rightarrow> (error + unit) \<times> world" where
  "putAll storeName [] w = (Inr (), w)"
| "putAll storeName (r # rs) w =
     (case putToStore storeName r w of
        (Inl e, w') \<Rightarrow> (Inl e, w')
      | (Inr u, w') \<Rightarrow> putAll storeName rs w')"

text \<open>
  One \<^verbatim>\<open>try\<close>/\<^verbatim>\<open>catch\<close> block of \<^verbatim>\<open>migrateFromLocalStorage\<close>; the source writes it out
  once for the boxes and once for the items. A failed parse and a rejected put both land
  in the \<^verbatim>\<open>catch\<close>, which logs and leaves the blob where it is.
\<close>

definition migrate_collection ::
  "(string \<Rightarrow> 'a list option) \<Rightarrow> 'a store_name \<Rightarrow> string \<Rightarrow> string \<Rightarrow> string \<Rightarrow> world \<Rightarrow> world"
  where
  "migrate_collection parse storeName key msg json w =
     (case parse json of
        None \<Rightarrow> console_error msg w
      | Some rs \<Rightarrow>
          (case putAll storeName rs w of
             (Inl e, w') \<Rightarrow> console_error msg w'
           | (Inr u, w') \<Rightarrow> removeItem key w'))"

definition migrate_boxes :: "JSON \<Rightarrow> string option \<Rightarrow> world \<Rightarrow> world" where
  "migrate_boxes J boxesJson w =
     (case boxesJson of
        None \<Rightarrow> w
      | Some json \<Rightarrow>
          if json = [] then w
          else migrate_collection (parse_boxes J) BOXES STORAGE_KEY_BOXES
                 ''Error migrating boxes'' json w)"

definition migrate_items :: "JSON \<Rightarrow> string option \<Rightarrow> world \<Rightarrow> world" where
  "migrate_items J itemsJson w =
     (case itemsJson of
        None \<Rightarrow> w
      | Some json \<Rightarrow>
          if json = [] then w
          else migrate_collection (parse_items J) ITEMS STORAGE_KEY_ITEMS
                 ''Error migrating items'' json w)"

definition migrateFromLocalStorage :: "JSON \<Rightarrow> world \<Rightarrow> world" where
  "migrateFromLocalStorage J w =
     (let boxesJson = localStorage w STORAGE_KEY_BOXES;
          itemsJson = localStorage w STORAGE_KEY_ITEMS
      in if \<not> truthy boxesJson \<and> \<not> truthy itemsJson then w
         else migrate_items J itemsJson
                (migrate_boxes J boxesJson
                  (console_log ''Migrating data from LocalStorage to IndexedDB...'' w)))"

definition loadData :: "world \<Rightarrow> world" where
  "loadData w =
     (case db w of
        None \<Rightarrow> w
      | Some d \<Rightarrow>
          (case getAllFromStore BOXES w of
             (Inl e, w1) \<Rightarrow> console_error ''Error loading data from DB'' w1
           | (Inr bs, w1) \<Rightarrow>
               (case getAllFromStore ITEMS w1 of
                  (Inl e, w2) \<Rightarrow> console_error ''Error loading data from DB'' w2
                | (Inr its, w2) \<Rightarrow>
                    (let w3 = w2\<lparr>boxes := js_sort (\<lambda>a b. createdAt b - createdAt a) bs\<rparr>
                     in w3\<lparr>items := js_sort (\<lambda>a b. timestamp b - timestamp a) its\<rparr>))))"

text \<open>
  \<^verbatim>\<open>initDatabase\<close>: \<open>opened\<close> is what \<^verbatim>\<open>indexedDB.open\<close> delivers, \<open>None\<close> when the
  request fires \<^verbatim>\<open>onerror\<close>, otherwise the database with its two object stores (they are
  created by \<^verbatim>\<open>onupgradeneeded\<close> when missing).
\<close>

definition initDatabase :: "JSON \<Rightarrow> database option \<Rightarrow> world \<Rightarrow> world" where
  "initDatabase J opened w =
     (case opened of
        None \<Rightarrow> console_error ''IndexedDB error:'' w
      | Some d \<Rightarrow> loadData (migrateFromLocalStorage J (w\<lparr>db := Some d\<rparr>)))"

section \<open>InventoryService on localStorage\<close>

text \<open>
  The version of the service in \<^verbatim>\<open>src/services/inventory.service.ts\<close> keeps both
  collections as JSON blobs under two keys. Its derived views and \<^verbatim>\<open>selectBox\<close> are
  those of the IndexedDB version; the operations that differ carry the suffix \<open>_ls\<close>.
  It does not use \<open>db\<close>.
\<close>

text \<open>
  The auto-save \<^verbatim>\<open>effect\<close> reads the signals \<^verbatim>\<open>boxes\<close> and \<^verbatim>\<open>items\<close>: the framework runs
  it once after construction and again after every update of either signal. Here it
  runs at the end of the operation that makes the update.
\<close>

definition effect_autosave :: "JSON \<Rightarrow> world \<Rightarrow> world" where
  "effect_autosave J w =
     w\<lparr>localStorage := (localStorage w)
          (STORAGE_KEY_BOXES \<mapsto> stringify_boxes J (boxes w),
           STORAGE_KEY_ITEMS \<mapsto> stringify_items J (items w))\<rparr>"

text \<open>
  \<^verbatim>\<open>loadFromStorage\<close> has no \<^verbatim>\<open>try\<close>: a \<^verbatim>\<open>SyntaxError\<close> of \<^verbatim>\<open>JSON.parse\<close> leaves the
  function at once, with the state as it is at that point. Both blobs are read before
  either is parsed.
\<close>

definition loadFromStorage :: "JSON \<Rightarrow> world \<Rightarrow> (error + unit) \<times> world" where
  "loadFromStorage J w =
     (let boxesData = localStorage w STORAGE_KEY_BOXES;
          itemsData = localStorage w STORAGE_KEY_ITEMS
      in case (case boxesData of
                 None \<Rightarrow> Inr w
               | Some s \<Rightarrow>
                   if s = [] then Inr w
                   else (case parse_boxes J s of
                           None \<Rightarrow> Inl SyntaxError
                         | Some bs \<Rightarrow> Inr (w\<lparr>boxes := bs\<rparr>))) of
           Inl e \<Rightarrow> (Inl e, w)
         | Inr w1 \<Rightarrow>
             (case itemsData of
                None \<Rightarrow> (Inr (), w1)
              | Some s \<Rightarrow>
                  if s = [] then (Inr (), w1)
                  else (case parse_items J s of
                          None \<Rightarrow> (Inl SyntaxError, w1)
                        | Some its \<Rightarrow> (Inr (), w1\<lparr>items := its\<rparr>))))"

definition constructor_ls :: "JSON \<Rightarrow> world \<Rightarrow> (error + unit) \<times> world" where
  "constructor_ls J w =
     (case loadFromStorage J w of
        (Inl e, w') \<Rightarrow> (Inl e, w')
      | (Inr u, w') \<Rightarrow> (Inr (), effect_autosave J w'))"

definition addBox_ls :: "JSON \<Rightarrow> string \<Rightarrow> int \<Rightarrow> string \<Rightarrow> world \<Rightarrow> world" where
  "addBox_ls J uuid now name w =
     (let newBox = \<lparr>box_id = uuid, box_name = name, isFull = False, createdAt = now\<rparr>;
          w1 = w\<lparr>boxes := newBox # boxes w\<rparr>;
          w2 = w1\<lparr>currentBoxId := Some (box_id newBox)\<rparr>
      in effect_autosave J w2)"

definition addItem_ls :: "JSON \<Rightarrow> string \<Rightarrow> int \<Rightarrow> string \<Rightarrow> ItemPartial \<Rightarrow> world \<Rightarrow> world" where
  "addItem_ls J uuid now bid itemData w =
     (case find (\<lambda>b. box_id b = bid) (boxes w) of
        None \<Rightarrow> w
      | Some box \<Rightarrow>
          (let newItem = \<lparr>item_id = uuid, boxId = bid, boxName = box_name box,
                 imageUrl = str_or (p_imageUrl itemData) '''',
                 item_name = str_or (p_name itemData) ''Unknown Item'',
                 description = str_or (p_description itemData) '''',
                 tags = arr_or (p_tags itemData) [],
                 timestamp = now\<rparr>
           in effect_autosave J (w\<lparr>items := newItem # items w\<rparr>)))"


definition updateItem_ls :: "JSON \<Rightarrow> string \<Rightarrow> ItemUpdates \<Rightarrow> world \<Rightarrow> world" where
  "updateItem_ls J iid updates w =
     effect_autosave J
       (w\<lparr>items := map (\<lambda>i. if item_id i = iid then merge_updates i updates else i) (items w)\<rparr>)"

definition deleteItem_ls :: "JSON \<Rightarrow> string \<Rightarrow> world \<Rightarrow> world" where
  "deleteItem_ls J iid w =
     effect_autosave J (w\<lparr>items := filter (\<lambda>i. item_id i \<noteq> iid) (items w)\<rparr>)"

section \<open>Runs of the service\<close>

text \<open>The service as its field initialisers leave it, in a browser with nothing stored.\<close>

definition initial :: world where
  "initial = \<lparr>boxes = [], items = [], currentBoxId = None, db = None,
              localStorage = Map.empty, console = [], idb_errors = []\<rparr>"

text \<open>
  A sequence of \<^verbatim>\<open>addBox\<close> calls, each with the identifier and the clock reading it
  draws and the name it is given, in call order.
\<close>

fun addBoxes :: "(string \<times> int \<times> string) list \<Rightarrow> world \<Rightarrow> world" where
  "addBoxes [] w = w"
| "addBoxes ((uuid, now, name) # calls) w = addBoxes calls (snd (addBox uuid now name w))"

fun addBoxes_ls :: "JSON \<Rightarrow> (string \<times> int \<times> string) list \<Rightarrow> world \<Rightarrow> world" where
  "addBoxes_ls J [] w = w"
| "addBoxes_ls J ((uuid, now, name) # calls) w = addBoxes_ls J calls (addBox_ls J uuid now name w)"

text \<open>The box each call of such a sequence creates.\<close>

definition box_of_call :: "string \<times> int \<times> string \<Rightarrow> Box" where
  "box_of_call c =
     \<lparr>box_id = fst c, box_name = snd (snd c), isFull = False, createdAt = fst (snd c)\<rparr>"

text \<open>\<^verbatim>\<open>{}\<close> as a \<^verbatim>\<open>Partial<Item>\<close> and as an update.\<close>

definition no_data :: ItemPartial where
  "no_data = \<lparr>p_id = None, p_boxId = None, p_boxName = None, p_imageUrl = None,
              p_name = None, p_description = None, p_tags = None, p_timestamp = None\<rparr>"

definition no_updates :: ItemUpdates where
  "no_updates = \<lparr>u_boxId = None, u_boxName = None, u_imageUrl = None, u_name = None,
                 u_description = None, u_tags = None, u_timestamp = None\<rparr>"

text \<open>The object literal \<^verbatim>\<open>newItem\<close> of \<^verbatim>\<open>addItem\<close>.\<close>

definition new_item :: "string \<Rightarrow> int \<Rightarrow> string \<Rightarrow> Box \<Rightarrow> ItemPartial \<Rightarrow> Item" where
  "new_item uuid now bid box d =
     \<lparr>item_id = uuid, boxId = bid, boxName = box_name box,
      imageUrl = str_or (p_imageUrl d) '''',
      item_name = str_or (p_name d) ''Unknown Item'',
      description = str_or (p_description d) '''',
      tags = arr_or (p_tags d) [],
      timestamp = now\<rparr>"

text \<open>A run used in the examples: one box, \<^verbatim>\<open>Garage\<close>, created at time 1.\<close>

definition garage :: Box where
  "garage = \<lparr>box_id = ''b1'', box_name = ''Garage'', isFull = False, createdAt = 1\<rparr>"

definition garage_world :: world where
  "garage_world = snd (addBox ''b1'' 1 ''Garage'' initial)"

text \<open>Three calls of \<^verbatim>\<open>addBox\<close>, the first two within the same millisecond.\<close>

definition three_calls :: "(string \<times> int \<times> string) list" where
  "three_calls = [(''b1'', 1, ''Garage''), (''b2'', 1, ''Attic''), (''b3'', 5, ''Shed'')]"




text \<open>
  Two runs through the public operations. In \<open>tool_world\<close> the garage holds a drill and,
  added later, a saw. In \<open>ghost_world\<close> the drill has been moved by \<^verbatim>\<open>updateItem\<close> to a
  box identifier that no box has, and that identifier has been selected.
\<close>

definition tool_world :: world where
  "tool_world =
     snd (addItem ''i2'' 3 ''b1'' (no_data\<lparr>p_name := Some ''Saw''\<rparr>)
       (snd (addItem ''i1'' 2 ''b1'' (no_data\<lparr>p_name := Some ''Drill''\<rparr>) garage_world)))"

definition ghost_world :: world where
  "ghost_world =
     selectBox ''ghost''
       (snd (updateItem ''i1'' (no_updates\<lparr>u_boxId := Some ''ghost''\<rparr>)
         (snd (addItem ''i1'' 2 ''b1'' (no_data\<lparr>p_name := Some ''Drill''\<rparr>) garage_world))))"

section \<open>Round trips through the durable layouts\<close>

text \<open>The database as \<^verbatim>\<open>onupgradeneeded\<close> creates it.\<close>

definition empty_database :: database where
  "empty_database = \<lparr>boxes_store = [], items_store = []\<rparr>"

text \<open>An object store after a run of puts, each record under its key.\<close>

definition put_each :: "('a \<Rightarrow> string) \<Rightarrow> 'a list \<Rightarrow> (string \<times> 'a) list \<Rightarrow> (string \<times> 'a) list" where
  "put_each key rs t = fold (\<lambda>r. store_put (key r) r) rs t"

text \<open>
  The table layout: each record of the two collections is put into its table, with the
  loop of the migration, in a database that is open and answers every request; a
  service with empty collections then loads from it.
\<close>

definition table_round_trip :: "Box list \<Rightarrow> Item list \<Rightarrow> world" where
  "table_round_trip bs its =
     loadData (snd (putAll ITEMS its (snd (putAll BOXES bs (initial\<lparr>db := Some empty_database\<rparr>)))))"

text \<open>
  The blob layout: the auto-save effect writes the two collections under their keys; a
  service with empty collections, in the same browser, then loads from them.
\<close>

definition blob_round_trip :: "JSON \<Rightarrow> Box list \<Rightarrow> Item list \<Rightarrow> (error + unit) \<times> world" where
  "blob_round_trip J bs its =
     loadFromStorage J
       (initial\<lparr>localStorage := localStorage (effect_autosave J (initial\<lparr>boxes := bs, items := its\<rparr>))\<rparr>)"

text \<open>
  Data for the examples: two items of the garage and two boxes that share an identifier.
\<close>

definition drill :: Item where
  "drill = \<lparr>item_id = ''i1'', boxId = ''b1'', boxName = ''Garage'', imageUrl = '''',
            item_name = ''Drill'', description = '''', tags = [], timestamp = 2\<rparr>"

definition saw :: Item where
  "saw = \<lparr>item_id = ''i2'', boxId = ''b1'', boxName = ''Garage'', imageUrl = '''',
          item_name = ''Saw'', description = '''', tags = [], timestamp = 3\<rparr>"

text \<open>
  The platform's JSON on the texts that the examples store: the empty array, the array
  holding the garage, and the array holding the saw and the drill. Nothing else parses,
  and no example stringifies another collection.
\<close>

definition garage_json :: string where
  "garage_json = ''[{\"id\":\"b1\",\"name\":\"Garage\",\"isFull\":false,\"createdAt\":1}]''"

definition tools_json :: string where
  "tools_json = ''[{\"id\":\"i2\",\"boxId\":\"b1\",\"boxName\":\"Garage\",\"imageUrl\":\"\",\"name\":\"Saw\",\"description\":\"\",\"tags\":[],\"timestamp\":3},{\"id\":\"i1\",\"boxId\":\"b1\",\"boxName\":\"Garage\",\"imageUrl\":\"\",\"name\":\"Drill\",\"description\":\"\",\"tags\":[],\"timestamp\":2}]''"

definition sample_JSON :: JSON where
  "sample_JSON =
     \<lparr>stringify_boxes = (\<lambda>bs. if bs = [] then ''[]'' else if bs = [garage] then garage_json
                               else ''[...]''),
      parse_boxes = (\<lambda>s. if s = ''[]'' then Some [] else if s = garage_json then Some [garage]
                           else None),
      stringify_items = (\<lambda>its. if its = [] then ''[]'' else if its = [saw, drill] then tools_json
                                else ''[...]''),
      parse_items = (\<lambda>s. if s = ''[]'' then Some [] else if s = tools_json then Some [saw, drill]
                           else None)\<rparr>"

definition twins :: "Box list" where
  "twins = [garage, garage\<lparr>box_name := ''Shed''\<rparr>]"

section \<open>Outcome of a migration\<close>

text \<open>
  The number of \<^verbatim>\<open>console.error\<close> calls so far. \<^verbatim>\<open>migrateFromLocalStorage\<close> returns
  nothing; a run has succeeded when it has logged no error, that is, when neither
  \<^verbatim>\<open>catch\<close> block was entered.
\<close>

definition error_count :: "world \<Rightarrow> nat" where
  "error_count w = length (filter (\<lambda>e. fst e = Error) (console w))"

definition migration_succeeded :: "JSON \<Rightarrow> world \<Rightarrow> bool" where
  "migration_succeeded J w = (error_count (migrateFromLocalStorage J w) = error_count w)"

text \<open>
  Browsers for the examples, each with an open, empty database: one with both blobs of
  the earlier version, one whose boxes blob is not JSON, one whose items blob is not
  JSON. \<open>items_only_world\<close> has no database and only an items blob, which is not JSON.
  In \<open>failing_read_world\<close> the service holds the tools in memory and the second of
  the coming IndexedDB requests fails.
\<close>

definition legacy_world :: world where
  "legacy_world =
     initial\<lparr>db := Some empty_database,
       localStorage := [STORAGE_KEY_BOXES \<mapsto> garage_json, STORAGE_KEY_ITEMS \<mapsto> tools_json]\<rparr>"

definition corrupt_boxes_world :: world where
  "corrupt_boxes_world =
     initial\<lparr>db := Some empty_database,
       localStorage := [STORAGE_KEY_BOXES \<mapsto> ''{oops'', STORAGE_KEY_ITEMS \<mapsto> tools_json]\<rparr>"

definition corrupt_items_world :: world where
  "corrupt_items_world =
     initial\<lparr>db := Some empty_database,
       localStorage := [STORAGE_KEY_BOXES \<mapsto> garage_json, STORAGE_KEY_ITEMS \<mapsto> ''{oops'']\<rparr>"

definition items_only_world :: world where
  "items_only_world = initial\<lparr>localStorage := [STORAGE_KEY_ITEMS \<mapsto> ''{oops'']\<rparr>"

definition failing_read_world :: world where
  "failing_read_world = tool_world\<lparr>db := Some empty_database, idb_errors := [False, True]\<rparr>"

section \<open>Frame lemmas\<close>

lemma putToStore_frame:
  "boxes (snd (putToStore s v w)) = boxes w"
  "items (snd (putToStore s v w)) = items w"
  "currentBoxId (snd (putToStore s v w)) = currentBoxId w"
  "localStorage (snd (putToStore s v w)) = localStorage w"
  "console (snd (putToStore s v w)) = console w"
  by (simp_all add: putToStore_def next_request_def split: option.splits list.splits bool.splits)

lemma effect_autosave_frame:
  "boxes (effect_autosave J w) = boxes w"
  "items (effect_autosave J w) = items w"
  "currentBoxId (effect_autosave J w) = currentBoxId w"
  "db (effect_autosave J w) = db w"
  "console (effect_autosave J w) = console w"
  by (simp_all add: effect_autosave_def)

lemma addBox_signals:
  "boxes (snd (addBox uuid now name w)) =
     \<lparr>box_id = uuid, box_name = name, isFull = False, createdAt = now\<rparr> # boxes w"
  "items (snd (addBox uuid now name w)) = items w"
  "currentBoxId (snd (addBox uuid now name w)) = Some uuid"
  by (simp_all add: addBox_def Let_def putToStore_frame)

lemma addBox_ls_signals:
  "boxes (addBox_ls J uuid now name w) =
     \<lparr>box_id = uuid, box_name = name, isFull = False, createdAt = now\<rparr> # boxes w"
  "items (addBox_ls J uuid now name w) = items w"
  "currentBoxId (addBox_ls J uuid now name w) = Some uuid"
  by (simp_all add: addBox_ls_def Let_def effect_autosave_frame)

lemma find_None_set: "(find P xs = None) = (\<forall>x\<in>set xs. \<not> P x)"
  by (induction xs) auto

lemma garage_world_signals:
  "boxes garage_world = [garage]"
  "items garage_world = []"
  "currentBoxId garage_world = Some ''b1''"
  by (simp_all add: garage_world_def garage_def addBox_signals initial_def)

section \<open>Blank box names\<close>

text \<open>
  \<^bold>\<open>C1\<close>, as the specification states it: for a name whose trimmed form is empty,
  \<^verbatim>\<open>addBox(name)\<close> changes neither the box collection nor the current-box pointer.
  \<^verbatim>\<open>addBox\<close> has no such test. On the empty name and on three spaces, in the service as
  it starts, it adds a box and selects it.
\<close>

theorem addBox_blank_counterexample:
  "trim '''' = '''' \<and> trim ''   '' = '''' \<and>
   boxes (snd (addBox ''u1'' 1 '''' initial)) \<noteq> boxes initial \<and>
   currentBoxId (snd (addBox ''u1'' 1 '''' initial)) \<noteq> currentBoxId initial \<and>
   boxes (snd (addBox ''u2'' 2 ''   '' initial)) \<noteq> boxes initial \<and>
   currentBoxId (snd (addBox ''u2'' 2 ''   '' initial)) \<noteq> currentBoxId initial"
  by (simp add: addBox_signals initial_def trim_def is_ws_def)

text \<open>
  \<^bold>\<open>C1\<close>, amended: the test for a blank name is made by the caller,
  \<^verbatim>\<open>AppComponent.createNewBox\<close>. For a name whose trimmed form is empty
  \<^verbatim>\<open>createNewBox(name)\<close> leaves the whole state as it was; for any other name it adds a
  box under the trimmed name and selects it. \<^verbatim>\<open>addBox(name)\<close> itself adds a box under
  the name it is given, whatever the name.
\<close>

theorem createNewBox_blank:
  "(trim name = [] \<longrightarrow> createNewBox uuid now name w = w) \<and>
   (trim name \<noteq> [] \<longrightarrow>
      boxes (createNewBox uuid now name w) =
        \<lparr>box_id = uuid, box_name = trim name, isFull = False, createdAt = now\<rparr> # boxes w \<and>
      currentBoxId (createNewBox uuid now name w) = Some uuid) \<and>
   boxes (snd (addBox uuid now name w)) =
     \<lparr>box_id = uuid, box_name = name, isFull = False, createdAt = now\<rparr> # boxes w \<and>
   currentBoxId (snd (addBox uuid now name w)) = Some uuid \<and>
   boxes (addBox_ls J uuid now name w) =
     \<lparr>box_id = uuid, box_name = name, isFull = False, createdAt = now\<rparr> # boxes w \<and>
   currentBoxId (addBox_ls J uuid now name w) = Some uuid"
  by (simp add: createNewBox_def addBox_signals addBox_ls_signals)

theorem createNewBox_blank_witness:
  "trim ''   '' = [] \<and> createNewBox ''u1'' 1 ''   '' initial = initial \<and>
   trim '' Attic '' \<noteq> [] \<and>
   boxes (createNewBox ''u1'' 1 '' Attic '' initial) =
     [\<lparr>box_id = ''u1'', box_name = ''Attic'', isFull = False, createdAt = 1\<rparr>]"
  using createNewBox_blank [of "''   ''" "''u1''" 1 initial]
    createNewBox_blank [of "'' Attic ''" "''u1''" 1 initial]
  by (simp add: trim_def is_ws_def initial_def)

section \<open>Adding an item\<close>

lemma new_item_fields:
  "item_id (new_item uuid now bid box d) = uuid"
  "boxId (new_item uuid now bid box d) = bid"
  "boxName (new_item uuid now bid box d) = box_name box"
  "timestamp (new_item uuid now bid box d) = now"
  "imageUrl (new_item uuid now bid box d) = str_or (p_imageUrl d) []"
  "item_name (new_item uuid now bid box d) = str_or (p_name d) ''Unknown Item''"
  "description (new_item uuid now bid box d) = str_or (p_description d) []"
  "tags (new_item uuid now bid box d) = arr_or (p_tags d) []"
  by (simp_all add: new_item_def)

lemma str_or_simps:
  "str_or None dflt = dflt"
  "str_or (Some []) dflt = dflt"
  "s \<noteq> [] \<Longrightarrow> str_or (Some s) dflt = s"
  by (simp_all add: str_or_def)

lemma arr_or_simps:
  "arr_or None dflt = dflt"
  "arr_or (Some t) dflt = t"
  by (simp_all add: arr_or_def)

lemma addItem_absent:
  "find (\<lambda>b. box_id b = bid) (boxes w) = None \<Longrightarrow> addItem uuid now bid d w = (Inr (), w)"
  by (simp add: addItem_def)

lemma addItem_present:
  assumes "find (\<lambda>b. box_id b = bid) (boxes w) = Some box"
  shows "items (snd (addItem uuid now bid d w)) = new_item uuid now bid box d # items w"
    and "boxes (snd (addItem uuid now bid d w)) = boxes w"
    and "currentBoxId (snd (addItem uuid now bid d w)) = currentBoxId w"
  using assms by (simp_all add: addItem_def Let_def putToStore_frame new_item_def)

lemma addItem_ls_absent:
  "find (\<lambda>b. box_id b = bid) (boxes w) = None \<Longrightarrow> addItem_ls J uuid now bid d w = w"
  by (simp add: addItem_ls_def)

lemma addItem_ls_present:
  assumes "find (\<lambda>b. box_id b = bid) (boxes w) = Some box"
  shows "items (addItem_ls J uuid now bid d w) = new_item uuid now bid box d # items w"
    and "boxes (addItem_ls J uuid now bid d w) = boxes w"
    and "currentBoxId (addItem_ls J uuid now bid d w) = currentBoxId w"
  using assms by (simp_all add: addItem_ls_def Let_def effect_autosave_frame new_item_def)

text \<open>
  \<^bold>\<open>C2\<close>: when no box of the collection has the identifier \<open>bid\<close>, \<^verbatim>\<open>addItem\<close> resolves
  without an error and leaves the state, so the item collection, as it was. When the
  lookup finds a box, exactly one item is put in front of the item collection: it has
  the fresh identifier, the given box identifier, the name of the box found, the current
  time as its timestamp, and the default in place of each optional field that is
  missing. A field that is given and not empty is kept. Both versions of the service
  build the same item.
\<close>

theorem addItem_defaults:
  "((\<forall>b\<in>set (boxes w). box_id b \<noteq> bid) \<longrightarrow>
      addItem uuid now bid d w = (Inr (), w) \<and> addItem_ls J uuid now bid d w = w) \<and>
   (\<forall>box. find (\<lambda>b. box_id b = bid) (boxes w) = Some box \<longrightarrow>
      (\<exists>it. items (snd (addItem uuid now bid d w)) = it # items w \<and>
            items (addItem_ls J uuid now bid d w) = it # items w \<and>
            item_id it = uuid \<and> boxId it = bid \<and> boxName it = box_name box \<and>
            timestamp it = now \<and>
            (p_imageUrl d = None \<longrightarrow> imageUrl it = '''') \<and>
            (p_name d = None \<longrightarrow> item_name it = ''Unknown Item'') \<and>
            (p_description d = None \<longrightarrow> description it = '''') \<and>
            (p_tags d = None \<longrightarrow> tags it = []) \<and>
            (\<forall>s. s \<noteq> [] \<longrightarrow>
               (p_imageUrl d = Some s \<longrightarrow> imageUrl it = s) \<and>
               (p_name d = Some s \<longrightarrow> item_name it = s) \<and>
               (p_description d = Some s \<longrightarrow> description it = s)) \<and>
            (\<forall>t. p_tags d = Some t \<longrightarrow> tags it = t)))"
proof (intro conjI allI impI)
  assume "\<forall>b\<in>set (boxes w). box_id b \<noteq> bid"
  then have none: "find (\<lambda>b. box_id b = bid) (boxes w) = None"
    by (simp add: find_None_set)
  show "addItem uuid now bid d w = (Inr (), w)"
    using none by (rule addItem_absent)
  show "addItem_ls J uuid now bid d w = w"
    using none by (rule addItem_ls_absent)
next
  fix box
  assume found: "find (\<lambda>b. box_id b = bid) (boxes w) = Some box"
  show "\<exists>it. items (snd (addItem uuid now bid d w)) = it # items w \<and>
            items (addItem_ls J uuid now bid d w) = it # items w \<and>
            item_id it = uuid \<and> boxId it = bid \<and> boxName it = box_name box \<and>
            timestamp it = now \<and>
            (p_imageUrl d = None \<longrightarrow> imageUrl it = '''') \<and>
            (p_name d = None \<longrightarrow> item_name it = ''Unknown Item'') \<and>
            (p_description d = None \<longrightarrow> description it = '''') \<and>
            (p_tags d = None \<longrightarrow> tags it = []) \<and>
            (\<forall>s. s \<noteq> [] \<longrightarrow>
               (p_imageUrl d = Some s \<longrightarrow> imageUrl it = s) \<and>
               (p_name d = Some s \<longrightarrow> item_name it = s) \<and>
               (p_description d = Some s \<longrightarrow> description it = s)) \<and>
            (\<forall>t. p_tags d = Some t \<longrightarrow> tags it = t)"
    apply (rule exI [of _ "new_item uuid now bid box d"])
    apply (simp only: addItem_present(1) [OF found] addItem_ls_present(1) [OF found]
        new_item_fields)
    apply (simp add: str_or_simps arr_or_simps)
    done
qed

theorem addItem_defaults_witness:
  "''zz'' \<notin> box_id ` set (boxes garage_world) \<and>
   addItem ''i1'' 2 ''zz'' no_data garage_world = (Inr (), garage_world) \<and>
   find (\<lambda>b. box_id b = ''b1'') (boxes garage_world) = Some garage \<and>
   items (snd (addItem ''i1'' 2 ''b1'' no_data garage_world)) =
     [\<lparr>item_id = ''i1'', boxId = ''b1'', boxName = ''Garage'', imageUrl = '''',
       item_name = ''Unknown Item'', description = '''', tags = [], timestamp = 2\<rparr>] \<and>
   items (snd (addItem ''i1'' 2 ''b1''
       (no_data\<lparr>p_name := Some ''Drill'', p_tags := Some [''tool'']\<rparr>) garage_world)) =
     [\<lparr>item_id = ''i1'', boxId = ''b1'', boxName = ''Garage'', imageUrl = '''',
       item_name = ''Drill'', description = '''', tags = [''tool''], timestamp = 2\<rparr>]"
  using addItem_defaults [of garage_world "''zz''" "''i1''" 2 no_data]
    addItem_defaults [of garage_world "''b1''" "''i1''" 2 no_data]
    addItem_defaults [of garage_world "''b1''" "''i1''" 2
      "no_data\<lparr>p_name := Some ''Drill'', p_tags := Some [''tool'']\<rparr>"]
  by (simp add: addItem_def Let_def putToStore_frame garage_world_signals garage_def
      no_data_def str_or_def arr_or_def)

text \<open>
  \<^bold>\<open>C10\<close>: \<^verbatim>\<open>||\<close> replaces what is falsy, not only what is missing. For a box
  identifier that the lookup finds, a name given as the empty string is stored as
  \<^verbatim>\<open>Unknown Item\<close>, an image or a description given as the empty string is stored as the
  default, the empty string, and a tags array that is given is kept as it is, the empty
  array too.
\<close>

theorem addItem_falsy_fields:
  "find (\<lambda>b. box_id b = bid) (boxes w) = Some box \<Longrightarrow>
   \<exists>it. items (snd (addItem uuid now bid d w)) = it # items w \<and>
        items (addItem_ls J uuid now bid d w) = it # items w \<and>
        (p_name d = Some '''' \<longrightarrow> item_name it = ''Unknown Item'') \<and>
        (p_imageUrl d = Some '''' \<longrightarrow> imageUrl it = '''') \<and>
        (p_description d = Some '''' \<longrightarrow> description it = '''') \<and>
        (p_tags d = Some [] \<longrightarrow> tags it = []) \<and>
        (\<forall>t. p_tags d = Some t \<longrightarrow> tags it = t)"
  apply (rule exI [of _ "new_item uuid now bid box d"])
  apply (simp only: addItem_present(1) addItem_ls_present(1) new_item_fields)
  apply (simp add: str_or_simps arr_or_simps)
  done

theorem addItem_falsy_fields_witness:
  "find (\<lambda>b. box_id b = ''b1'') (boxes garage_world) = Some garage \<and>
   items (snd (addItem ''i1'' 2 ''b1''
       (no_data\<lparr>p_name := Some '''', p_imageUrl := Some '''', p_description := Some '''',
                 p_tags := Some []\<rparr>) garage_world)) =
     [\<lparr>item_id = ''i1'', boxId = ''b1'', boxName = ''Garage'', imageUrl = '''',
       item_name = ''Unknown Item'', description = '''', tags = [], timestamp = 2\<rparr>]"
  using addItem_falsy_fields [of "''b1''" garage_world garage "''i1''" 2
      "no_data\<lparr>p_name := Some '''', p_imageUrl := Some '''', p_description := Some '''',
                 p_tags := Some []\<rparr>"]
  by (simp add: addItem_def Let_def putToStore_frame garage_world_signals garage_def
      no_data_def str_or_def arr_or_def)

section \<open>Sequences of addBox calls\<close>

lemma boxes_addBoxes:
  "boxes (addBoxes calls w) = rev (map box_of_call calls) @ boxes w"
  by (induction calls w rule: addBoxes.induct) (simp_all add: addBox_signals box_of_call_def)

lemma boxes_addBoxes_ls:
  "boxes (addBoxes_ls J calls w) = rev (map box_of_call calls) @ boxes w"
  by (induction J calls w rule: addBoxes_ls.induct)
    (simp_all add: addBox_ls_signals box_of_call_def)

lemma newest_first_rev:
  "sorted (map (\<lambda>c. fst (snd c)) calls) \<Longrightarrow>
   sorted_wrt (\<lambda>a b. createdAt b \<le> createdAt a) (rev (map box_of_call calls))"
  by (simp add: sorted_wrt_rev sorted_wrt_map box_of_call_def sorted_map)

text \<open>
  \<^bold>\<open>C4\<close>: a sequence of \<^verbatim>\<open>addBox\<close> calls on a service without boxes, the clock not
  running backwards from one call to the next, leaves as many boxes as there were calls,
  newest first by \<^verbatim>\<open>createdAt\<close>. This holds for any names, so for non-empty ones, and in
  both versions of the service.
\<close>

theorem addBox_sequence:
  assumes "boxes w = []" and "sorted (map (\<lambda>c. fst (snd c)) calls)"
  shows "length (boxes (addBoxes calls w)) = length calls \<and>
         sorted_wrt (\<lambda>a b. createdAt b \<le> createdAt a) (boxes (addBoxes calls w)) \<and>
         length (boxes (addBoxes_ls J calls w)) = length calls \<and>
         sorted_wrt (\<lambda>a b. createdAt b \<le> createdAt a) (boxes (addBoxes_ls J calls w))"
  using assms newest_first_rev [of calls] by (simp add: boxes_addBoxes boxes_addBoxes_ls)

theorem addBox_sequence_witness:
  "boxes initial = [] \<and> sorted (map (\<lambda>c. fst (snd c)) three_calls) \<and>
   length (boxes (addBoxes three_calls initial)) = 3 \<and>
   map box_name (boxes (addBoxes three_calls initial)) = [''Shed'', ''Attic'', ''Garage''] \<and>
   map createdAt (boxes (addBoxes three_calls initial)) = [5, 1, 1]"
  using addBox_sequence [of initial three_calls]
  by (simp add: three_calls_def addBox_signals initial_def)

section \<open>Sealing and reopening a box\<close>




lemma updateBoxStatus_absent:
  "find (\<lambda>b. box_id b = bid) (boxes w) = None \<Longrightarrow> updateBoxStatus bid f w = (Inr (), w)"
  by (simp add: updateBoxStatus_def)













section \<open>The items of the current box\<close>

lemma mset_insert_by: "mset (insert_by cmp x xs) = add_mset x (mset xs)"
  by (induction xs) simp_all

lemma mset_js_sort: "mset (js_sort cmp xs) = mset xs"
  by (induction xs) (simp_all add: js_sort_def mset_insert_by)

lemma set_insert_by: "set (insert_by cmp x xs) = insert x (set xs)"
  by (induction xs) auto

lemma js_sort_Nil: "js_sort cmp [] = []"
  by (simp add: js_sort_def)

lemma sorted_insert_by_desc:
  fixes f :: "'a \<Rightarrow> int"
  assumes "sorted_wrt (\<lambda>a b. f b \<le> f a) xs"
  shows "sorted_wrt (\<lambda>a b. f b \<le> f a) (insert_by (\<lambda>a b. f b - f a) x xs)"
  using assms by (induction xs) (auto simp: set_insert_by)

lemma sorted_js_sort_desc:
  fixes f :: "'a \<Rightarrow> int"
  shows "sorted_wrt (\<lambda>a b. f b \<le> f a) (js_sort (\<lambda>a b. f b - f a) xs)"
proof (induction xs)
  case Nil
  show ?case by (simp add: js_sort_def)
next
  case (Cons x xs)
  then show ?case
    using sorted_insert_by_desc [of f "js_sort (\<lambda>a b. f b - f a) xs" x]
    by (simp add: js_sort_def)
qed

lemma tool_world_signals:
  "boxes tool_world = [garage]"
  "items tool_world =
     [\<lparr>item_id = ''i2'', boxId = ''b1'', boxName = ''Garage'', imageUrl = '''',
       item_name = ''Saw'', description = '''', tags = [], timestamp = 3\<rparr>,
      \<lparr>item_id = ''i1'', boxId = ''b1'', boxName = ''Garage'', imageUrl = '''',
       item_name = ''Drill'', description = '''', tags = [], timestamp = 2\<rparr>]"
  "currentBoxId tool_world = Some ''b1''"
  by (simp_all add: tool_world_def addItem_def Let_def putToStore_frame garage_world_signals
      garage_def no_data_def str_or_def arr_or_def)

lemma ghost_world_signals:
  "boxes ghost_world = [garage]"
  "items ghost_world = [\<lparr>item_id = ''i1'', boxId = ''ghost'', boxName = ''Garage'',
      imageUrl = '''', item_name = ''Drill'', description = '''', tags = [], timestamp = 2\<rparr>]"
  "currentBoxId ghost_world = Some ''ghost''"
  by (simp_all add: ghost_world_def selectBox_def updateItem_def addItem_def Let_def
      putToStore_frame garage_world_signals garage_def no_data_def no_updates_def
      merge_updates_def str_or_def arr_or_def)

text \<open>
  \<^bold>\<open>C3\<close>, as the specification states it: in every state \<^verbatim>\<open>itemsInCurrentBox\<close> is empty
  when the pointer is dangling. In \<open>ghost_world\<close>, reached through the public
  operations, the pointer names no box, \<^verbatim>\<open>currentBox\<close> is none, and the view still
  returns the item that carries that box identifier.
\<close>

theorem itemsInCurrentBox_dangling_counterexample:
  "currentBoxId ghost_world = Some ''ghost'' \<and> currentBox ghost_world = None \<and>
   itemsInCurrentBox ghost_world \<noteq> []"
  by (simp add: ghost_world_signals currentBox_def itemsInCurrentBox_def garage_def js_sort_def)

text \<open>
  \<^bold>\<open>C3\<close>, amended: in every state \<^verbatim>\<open>itemsInCurrentBox\<close> returns exactly the items whose
  \<^verbatim>\<open>boxId\<close> equals the current-box pointer, each as often as the collection holds it,
  in descending order of \<^verbatim>\<open>timestamp\<close>. It is empty when no item carries the pointer as
  its \<^verbatim>\<open>boxId\<close>: so when the pointer is \<^verbatim>\<open>null\<close>, and when the pointer is dangling in a
  state where every item's \<^verbatim>\<open>boxId\<close> is the identifier of a box of the collection.
\<close>

theorem itemsInCurrentBox_spec:
  "mset (itemsInCurrentBox w) = filter_mset (\<lambda>i. Some (boxId i) = currentBoxId w) (mset (items w)) \<and>
   sorted_wrt (\<lambda>a b. timestamp b \<le> timestamp a) (itemsInCurrentBox w) \<and>
   ((\<forall>i\<in>set (items w). Some (boxId i) \<noteq> currentBoxId w) \<longrightarrow> itemsInCurrentBox w = []) \<and>
   (currentBoxId w = None \<longrightarrow> itemsInCurrentBox w = []) \<and>
   (currentBox w = None \<and> (\<forall>i\<in>set (items w). \<exists>b\<in>set (boxes w). box_id b = boxId i)
      \<longrightarrow> itemsInCurrentBox w = [])"
proof (intro conjI impI)
  show "mset (itemsInCurrentBox w) =
      filter_mset (\<lambda>i. Some (boxId i) = currentBoxId w) (mset (items w))"
    by (simp add: itemsInCurrentBox_def mset_js_sort)
  show "sorted_wrt (\<lambda>a b. timestamp b \<le> timestamp a) (itemsInCurrentBox w)"
    unfolding itemsInCurrentBox_def by (rule sorted_js_sort_desc)
  have empty: "itemsInCurrentBox w = []"
    if "\<forall>i\<in>set (items w). Some (boxId i) \<noteq> currentBoxId w"
  proof -
    from that have "filter (\<lambda>i. Some (boxId i) = currentBoxId w) (items w) = []"
      by (simp add: filter_empty_conv)
    then show ?thesis
      by (simp add: itemsInCurrentBox_def js_sort_Nil)
  qed
  show "itemsInCurrentBox w = []" if "\<forall>i\<in>set (items w). Some (boxId i) \<noteq> currentBoxId w"
    using that by (rule empty)
  show "itemsInCurrentBox w = []" if "currentBoxId w = None"
    using that by (intro empty) simp
  show "itemsInCurrentBox w = []"
    if "currentBox w = None \<and> (\<forall>i\<in>set (items w). \<exists>b\<in>set (boxes w). box_id b = boxId i)"
  proof (rule empty, rule ballI)
    fix i assume i: "i \<in> set (items w)"
    show "Some (boxId i) \<noteq> currentBoxId w"
    proof
      assume eq: "Some (boxId i) = currentBoxId w"
      then have "find (\<lambda>b. box_id b = boxId i) (boxes w) = None"
        using that by (simp add: currentBox_def split: option.splits)
      then have "\<forall>b\<in>set (boxes w). box_id b \<noteq> boxId i"
        by (simp add: find_None_set)
      with that i show False by blast
    qed
  qed
qed

theorem itemsInCurrentBox_spec_witness:
  "map item_name (itemsInCurrentBox tool_world) = [''Saw'', ''Drill''] \<and>
   currentBoxId (backToBoxList tool_world) = None \<and>
   itemsInCurrentBox (backToBoxList tool_world) = [] \<and>
   currentBox (selectBox ''b9'' tool_world) = None \<and>
   boxId ` set (items (selectBox ''b9'' tool_world))
     \<subseteq> box_id ` set (boxes (selectBox ''b9'' tool_world)) \<and>
   itemsInCurrentBox (selectBox ''b9'' tool_world) = []"
  using itemsInCurrentBox_spec [of tool_world]
    itemsInCurrentBox_spec [of "backToBoxList tool_world"]
    itemsInCurrentBox_spec [of "selectBox ''b9'' tool_world"]
  by (simp add: tool_world_signals backToBoxList_def selectBox_def currentBox_def
      itemsInCurrentBox_def js_sort_def garage_def)

section \<open>Round trip through the durable layouts\<close>

lemma next_request_ok: "idb_errors w = [] \<Longrightarrow> next_request w = (False, w)"
  by (simp add: next_request_def)

lemma putToStore_ok:
  "db w = Some d \<Longrightarrow> idb_errors w = [] \<Longrightarrow>
   putToStore s v w =
     (Inr (), w\<lparr>db := Some (set_store s (store_put (keyPath s v) v (get_store s d)) d)\<rparr>)"
  by (simp add: putToStore_def next_request_ok)

lemma putAll_ok:
  assumes get_set: "\<And>t d. get_store s (set_store s t d) = t"
    and set_set: "\<And>t t' d. set_store s t (set_store s t' d) = set_store s t d"
    and set_get: "\<And>d. set_store s (get_store s d) d = d"
  shows "db w = Some d \<Longrightarrow> idb_errors w = [] \<Longrightarrow>
    putAll s rs w =
      (Inr (), w\<lparr>db := Some (set_store s (put_each (keyPath s) rs (get_store s d)) d)\<rparr>)"
proof (induction rs arbitrary: w d)
  case Nil
  then show ?case by (simp add: put_each_def set_get)
next
  case (Cons r rs)
  let ?d' = "set_store s (store_put (keyPath s r) r (get_store s d)) d"
  let ?w' = "w\<lparr>db := Some ?d'\<rparr>"
  have step: "putToStore s r w = (Inr (), ?w')"
    using Cons.prems by (rule putToStore_ok)
  have "putAll s rs ?w' =
      (Inr (), ?w'\<lparr>db := Some (set_store s (put_each (keyPath s) rs (get_store s ?d')) ?d')\<rparr>)"
    using Cons.prems by (intro Cons.IH) simp_all
  then show ?case
    by (simp add: step put_each_def get_set set_set)
qed

lemma BOXES_laws:
  "get_store BOXES (set_store BOXES t d) = t"
  "set_store BOXES t (set_store BOXES t' d) = set_store BOXES t d"
  "set_store BOXES (get_store BOXES d) d = d"
  "keyPath BOXES = box_id"
  "get_store ITEMS (set_store BOXES t d) = get_store ITEMS d"
  by (simp_all add: BOXES_def ITEMS_def)

lemma ITEMS_laws:
  "get_store ITEMS (set_store ITEMS t d) = t"
  "set_store ITEMS t (set_store ITEMS t' d) = set_store ITEMS t d"
  "set_store ITEMS (get_store ITEMS d) d = d"
  "keyPath ITEMS = item_id"
  "get_store BOXES (set_store ITEMS t d) = get_store BOXES d"
  by (simp_all add: BOXES_def ITEMS_def)

lemma keys_store_put: "fst ` set (store_put k v t) = insert k (fst ` set t)"
proof (induction t)
  case Nil
  show ?case by simp
next
  case (Cons p t)
  obtain k' v' where p: "p = (k', v')" by (cases p)
  show ?case
    unfolding p using Cons.IH by (simp add: insert_commute)
qed

lemma mset_store_put_new:
  "k \<notin> fst ` set t \<Longrightarrow> mset (store_put k v t) = add_mset (k, v) (mset t)"
  by (induction t) auto

lemma keys_put_each: "fst ` set (put_each key rs t) = key ` set rs \<union> fst ` set t"
  by (induction rs arbitrary: t) (auto simp: put_each_def keys_store_put)

lemma mset_put_each:
  "distinct (map key rs) \<Longrightarrow> key ` set rs \<inter> fst ` set t = {} \<Longrightarrow>
   mset (map snd (put_each key rs t)) = mset rs + mset (map snd t)"
proof (induction rs arbitrary: t)
  case Nil
  show ?case by (simp add: put_each_def)
next
  case (Cons r rs)
  have new: "key r \<notin> fst ` set t"
    using Cons.prems(2) by auto
  have "mset (map snd (put_each key rs (store_put (key r) r t))) =
      mset rs + mset (map snd (store_put (key r) r t))"
    using Cons.prems new by (intro Cons.IH) (auto simp: keys_store_put)
  moreover have "mset (map snd (store_put (key r) r t)) = add_mset r (mset (map snd t))"
    using mset_store_put_new [OF new, of r] by (metis mset_map image_mset_add_mset snd_conv)
  ultimately show ?case
    by (simp add: put_each_def)
qed

lemma getAllFromStore_ok:
  "db w = Some d \<Longrightarrow> idb_errors w = [] \<Longrightarrow>
   getAllFromStore s w = (Inr (map snd (get_store s d)), w)"
  by (simp add: getAllFromStore_def next_request_ok store_getAll_def)

lemma loadData_ok:
  assumes "db w = Some d" and "idb_errors w = []"
  shows "loadData w =
    w\<lparr>boxes := js_sort (\<lambda>a b. createdAt b - createdAt a) (map snd (boxes_store d)),
      items := js_sort (\<lambda>a b. timestamp b - timestamp a) (map snd (items_store d))\<rparr>"
  using assms by (simp add: loadData_def getAllFromStore_ok Let_def BOXES_def ITEMS_def)

lemma table_round_trip_eq:
  "table_round_trip bs its =
     initial\<lparr>db := Some \<lparr>boxes_store = put_each box_id bs [], items_store = put_each item_id its []\<rparr>,
       boxes := js_sort (\<lambda>a b. createdAt b - createdAt a) (map snd (put_each box_id bs [])),
       items := js_sort (\<lambda>a b. timestamp b - timestamp a) (map snd (put_each item_id its []))\<rparr>"
proof -
  let ?w0 = "initial\<lparr>db := Some empty_database\<rparr>"
  have w0: "db ?w0 = Some empty_database" "idb_errors ?w0 = []"
    by (simp_all add: initial_def)
  let ?d1 = "set_store BOXES (put_each box_id bs []) empty_database"
  have p1: "putAll BOXES bs ?w0 = (Inr (), ?w0\<lparr>db := Some ?d1\<rparr>)"
    using putAll_ok [of BOXES ?w0 empty_database bs, OF BOXES_laws(1,2,3) w0]
    by (simp add: BOXES_laws empty_database_def) (simp add: BOXES_def)
  let ?w1 = "?w0\<lparr>db := Some ?d1\<rparr>"
  have w1: "db ?w1 = Some ?d1" "idb_errors ?w1 = []"
    by (simp_all add: initial_def)
  let ?d2 = "set_store ITEMS (put_each item_id its []) ?d1"
  have p2: "putAll ITEMS its ?w1 = (Inr (), ?w1\<lparr>db := Some ?d2\<rparr>)"
    using putAll_ok [of ITEMS ?w1 ?d1 its, OF ITEMS_laws(1,2,3) w1]
    by (simp add: ITEMS_laws empty_database_def) (simp add: BOXES_def ITEMS_def)
  let ?w2 = "?w1\<lparr>db := Some ?d2\<rparr>"
  have w2: "db ?w2 = Some ?d2" "idb_errors ?w2 = []"
    by (simp_all add: initial_def)
  show ?thesis
    unfolding table_round_trip_def p1 p2 snd_conv loadData_ok [OF w2]
    by (simp add: BOXES_def ITEMS_def empty_database_def initial_def)
qed

lemma blob_round_trip_ok:
  assumes "stringify_boxes J bs \<noteq> []" "parse_boxes J (stringify_boxes J bs) = Some bs"
    "stringify_items J its \<noteq> []" "parse_items J (stringify_items J its) = Some its"
  shows "fst (blob_round_trip J bs its) = Inr ()"
    and "boxes (snd (blob_round_trip J bs its)) = bs"
    and "items (snd (blob_round_trip J bs its)) = its"
  using assms
  by (simp_all add: blob_round_trip_def loadFromStorage_def effect_autosave_def Let_def
      STORAGE_KEY_BOXES_def STORAGE_KEY_ITEMS_def initial_def)

text \<open>
  \<^bold>\<open>C6\<close>, as the specification states it: for every pair of collections the round
  trip returns collections with the same elements. An object store holds one record per
  key: of two boxes that share an identifier the table keeps the one put last, and the
  collection loaded has one element where the original has two.
\<close>

theorem table_round_trip_duplicate_counterexample:
  "set (boxes (table_round_trip twins [])) \<noteq> set twins"
  by (simp add: table_round_trip_eq twins_def put_each_def garage_def js_sort_def)

text \<open>
  \<^bold>\<open>C6\<close>, amended. Blob layout: for every pair of collections that \<^verbatim>\<open>JSON.stringify\<close>
  turns into non-empty texts which \<^verbatim>\<open>JSON.parse\<close> turns back into them, the load
  returns normally with exactly the two collections. Table layout: for every pair of
  collections in which no two boxes and no two items share an identifier, the
  collections loaded have the same elements as the originals, each once.
\<close>

theorem durable_round_trip:
  "(stringify_boxes J bs \<noteq> [] \<and> parse_boxes J (stringify_boxes J bs) = Some bs \<and>
    stringify_items J its \<noteq> [] \<and> parse_items J (stringify_items J its) = Some its \<longrightarrow>
      fst (blob_round_trip J bs its) = Inr () \<and>
      boxes (snd (blob_round_trip J bs its)) = bs \<and>
      items (snd (blob_round_trip J bs its)) = its) \<and>
   (distinct (map box_id bs) \<and> distinct (map item_id its) \<longrightarrow>
      mset (boxes (table_round_trip bs its)) = mset bs \<and>
      mset (items (table_round_trip bs its)) = mset its \<and>
      set (boxes (table_round_trip bs its)) = set bs \<and>
      set (items (table_round_trip bs its)) = set its)"
proof (intro conjI impI)
  assume "stringify_boxes J bs \<noteq> [] \<and> parse_boxes J (stringify_boxes J bs) = Some bs \<and>
    stringify_items J its \<noteq> [] \<and> parse_items J (stringify_items J its) = Some its"
  then show "fst (blob_round_trip J bs its) = Inr ()"
    "boxes (snd (blob_round_trip J bs its)) = bs"
    "items (snd (blob_round_trip J bs its)) = its"
    by (simp_all add: blob_round_trip_ok)
next
  assume d: "distinct (map box_id bs) \<and> distinct (map item_id its)"
  have b: "mset (map snd (put_each box_id bs [])) = mset bs"
    using d mset_put_each [of box_id bs "[]"] by simp
  have i: "mset (map snd (put_each item_id its [])) = mset its"
    using d mset_put_each [of item_id its "[]"] by simp
  show mb: "mset (boxes (table_round_trip bs its)) = mset bs"
    using b by (simp add: table_round_trip_eq mset_js_sort)
  show mi: "mset (items (table_round_trip bs its)) = mset its"
    using i by (simp add: table_round_trip_eq mset_js_sort)
  show "set (boxes (table_round_trip bs its)) = set bs"
    using mb by (rule mset_eq_setD)
  show "set (items (table_round_trip bs its)) = set its"
    using mi by (rule mset_eq_setD)
qed

theorem durable_round_trip_witness:
  "stringify_boxes sample_JSON [garage] \<noteq> [] \<and>
   parse_boxes sample_JSON (stringify_boxes sample_JSON [garage]) = Some [garage] \<and>
   stringify_items sample_JSON [saw, drill] \<noteq> [] \<and>
   parse_items sample_JSON (stringify_items sample_JSON [saw, drill]) = Some [saw, drill] \<and>
   boxes (snd (blob_round_trip sample_JSON [garage] [saw, drill])) = [garage] \<and>
   items (snd (blob_round_trip sample_JSON [garage] [saw, drill])) = [saw, drill] \<and>
   distinct (map box_id [garage]) \<and> distinct (map item_id [drill, saw]) \<and>
   boxes (table_round_trip [garage] [drill, saw]) = [garage] \<and>
   items (table_round_trip [garage] [drill, saw]) = [saw, drill]"
  using durable_round_trip [of sample_JSON "[garage]" "[saw, drill]"]
    durable_round_trip [of sample_JSON "[garage]" "[drill, saw]"]
  by (simp add: sample_JSON_def garage_json_def tools_json_def garage_def drill_def saw_def
      table_round_trip_eq put_each_def js_sort_def)

section \<open>Migration\<close>

lemma putAll_preserves:
  assumes "\<And>r w. f (snd (putToStore s r w)) = f w"
  shows "f (snd (putAll s rs w)) = f w"
proof (induction rs arbitrary: w)
  case Nil
  show ?case by simp
next
  case (Cons r rs)
  obtain res w' where step: "putToStore s r w = (res, w')"
    by (cases "putToStore s r w")
  have same: "f w' = f w"
    using assms [of r w] by (simp add: step)
  show ?case
    using Cons.IH [of w'] step same by (cases res) simp_all
qed

lemma putAll_frame:
  "boxes (snd (putAll s rs w)) = boxes w"
  "items (snd (putAll s rs w)) = items w"
  "currentBoxId (snd (putAll s rs w)) = currentBoxId w"
  "localStorage (snd (putAll s rs w)) = localStorage w"
  "console (snd (putAll s rs w)) = console w"
  by (rule putAll_preserves, rule putToStore_frame)+

lemma error_count_simps:
  "error_count (console_error msg w) = Suc (error_count w)"
  "error_count (console_log msg w) = error_count w"
  "error_count (removeItem k w) = error_count w"
  by (simp_all add: error_count_def console_error_def console_log_def removeItem_def)

lemma error_count_putAll: "error_count (snd (putAll s rs w)) = error_count w"
  by (simp add: error_count_def putAll_frame)

lemma localStorage_simps:
  "localStorage (console_error msg w) = localStorage w"
  "localStorage (console_log msg w) = localStorage w"
  "localStorage (removeItem k w) = (localStorage w)(k := None)"
  by (simp_all add: console_error_def console_log_def removeItem_def)

text \<open>A block either removes its blob and logs no error, or logs one error and leaves
  every blob.\<close>

lemma migrate_collection_outcome:
  "(error_count (migrate_collection parse s key msg json w) = error_count w \<and>
    localStorage (migrate_collection parse s key msg json w) = (localStorage w)(key := None)) \<or>
   (error_count (migrate_collection parse s key msg json w) = Suc (error_count w) \<and>
    localStorage (migrate_collection parse s key msg json w) = localStorage w)"
proof (cases "parse json")
  case None
  then show ?thesis
    by (simp add: migrate_collection_def error_count_simps localStorage_simps)
next
  case (Some rs)
  obtain res w' where run: "putAll s rs w = (res, w')"
    by (cases "putAll s rs w")
  have fr: "error_count w' = error_count w" "localStorage w' = localStorage w"
    using error_count_putAll [of s rs w] putAll_frame(4) [of s rs w] by (simp_all add: run)
  show ?thesis
    by (cases res) (simp_all add: migrate_collection_def Some run fr error_count_simps
        localStorage_simps)
qed

lemma keys_differ: "STORAGE_KEY_BOXES \<noteq> STORAGE_KEY_ITEMS"
  by (simp add: STORAGE_KEY_BOXES_def STORAGE_KEY_ITEMS_def)

lemma migrate_boxes_outcome:
  "(error_count (migrate_boxes J bj w) = error_count w \<and>
    localStorage (migrate_boxes J bj w) =
      (if truthy bj then (localStorage w)(STORAGE_KEY_BOXES := None) else localStorage w)) \<or>
   (error_count (migrate_boxes J bj w) = Suc (error_count w) \<and>
    localStorage (migrate_boxes J bj w) = localStorage w)"
  using migrate_collection_outcome [of "parse_boxes J" BOXES STORAGE_KEY_BOXES
      "''Error migrating boxes''" _ w]
  by (auto simp: migrate_boxes_def truthy_def split: option.splits)

lemma migrate_items_outcome:
  "(error_count (migrate_items J ij w) = error_count w \<and>
    localStorage (migrate_items J ij w) =
      (if truthy ij then (localStorage w)(STORAGE_KEY_ITEMS := None) else localStorage w)) \<or>
   (error_count (migrate_items J ij w) = Suc (error_count w) \<and>
    localStorage (migrate_items J ij w) = localStorage w)"
  using migrate_collection_outcome [of "parse_items J" ITEMS STORAGE_KEY_ITEMS
      "''Error migrating items''" _ w]
  by (auto simp: migrate_items_def truthy_def split: option.splits)

lemma migrate_boxes_count:
  "error_count (migrate_boxes J bj w) = error_count w \<or>
   error_count (migrate_boxes J bj w) = Suc (error_count w)"
  using migrate_boxes_outcome [of J bj w] by blast

lemma migrate_items_count:
  "error_count (migrate_items J ij w) = error_count w \<or>
   error_count (migrate_items J ij w) = Suc (error_count w)"
  using migrate_items_outcome [of J ij w] by blast

lemma migrate_boxes_clean:
  "error_count (migrate_boxes J bj w) = error_count w \<Longrightarrow>
   localStorage (migrate_boxes J bj w) =
     (if truthy bj then (localStorage w)(STORAGE_KEY_BOXES := None) else localStorage w)"
  using migrate_boxes_outcome [of J bj w] by linarith

lemma migrate_items_clean:
  "error_count (migrate_items J ij w) = error_count w \<Longrightarrow>
   localStorage (migrate_items J ij w) =
     (if truthy ij then (localStorage w)(STORAGE_KEY_ITEMS := None) else localStorage w)"
  using migrate_items_outcome [of J ij w] by linarith

lemma migrate_absent:
  "\<not> truthy (localStorage w STORAGE_KEY_BOXES) \<Longrightarrow> \<not> truthy (localStorage w STORAGE_KEY_ITEMS) \<Longrightarrow>
   migrateFromLocalStorage J w = w"
  by (simp add: migrateFromLocalStorage_def)

lemma migrate_succeeded_blobs:
  assumes ok: "migration_succeeded J w"
  shows "localStorage (migrateFromLocalStorage J w) STORAGE_KEY_BOXES =
           (if truthy (localStorage w STORAGE_KEY_BOXES) then None
            else localStorage w STORAGE_KEY_BOXES)"
    and "localStorage (migrateFromLocalStorage J w) STORAGE_KEY_ITEMS =
           (if truthy (localStorage w STORAGE_KEY_ITEMS) then None
            else localStorage w STORAGE_KEY_ITEMS)"
proof -
  let ?bj = "localStorage w STORAGE_KEY_BOXES" and ?ij = "localStorage w STORAGE_KEY_ITEMS"
  have "localStorage (migrateFromLocalStorage J w) STORAGE_KEY_BOXES =
           (if truthy ?bj then None else ?bj) \<and>
        localStorage (migrateFromLocalStorage J w) STORAGE_KEY_ITEMS =
           (if truthy ?ij then None else ?ij)"
  proof (cases "\<not> truthy ?bj \<and> \<not> truthy ?ij")
    case True
    then show ?thesis by (simp add: migrate_absent)
  next
    case False
    let ?w1 = "console_log ''Migrating data from LocalStorage to IndexedDB...'' w"
    let ?w2 = "migrate_boxes J ?bj ?w1"
    let ?w3 = "migrate_items J ?ij ?w2"
    have run: "migrateFromLocalStorage J w = ?w3"
      using False by (auto simp add: migrateFromLocalStorage_def Let_def)
    have c1: "error_count ?w1 = error_count w" and l1: "localStorage ?w1 = localStorage w"
      by (simp_all add: error_count_simps localStorage_simps)
    have c3: "error_count ?w3 = error_count w"
      using ok by (simp add: migration_succeeded_def run)
    have e2: "error_count ?w2 = error_count w"
      using migrate_boxes_count [of J ?bj ?w1] migrate_items_count [of J ?ij ?w2] c1 c3
      by linarith
    have l2: "localStorage ?w2 =
        (if truthy ?bj then (localStorage w)(STORAGE_KEY_BOXES := None) else localStorage w)"
      using migrate_boxes_clean [of J ?bj ?w1] e2 c1 l1 by simp
    have l3: "localStorage ?w3 =
        (if truthy ?ij then (localStorage ?w2)(STORAGE_KEY_ITEMS := None) else localStorage ?w2)"
      using migrate_items_clean [of J ?ij ?w2] e2 c3 by simp
    show ?thesis
      unfolding run l3 l2 using keys_differ by simp
  qed
  then show "localStorage (migrateFromLocalStorage J w) STORAGE_KEY_BOXES =
           (if truthy ?bj then None else ?bj)"
    and "localStorage (migrateFromLocalStorage J w) STORAGE_KEY_ITEMS =
           (if truthy ?ij then None else ?ij)"
    by simp_all
qed

text \<open>
  \<^bold>\<open>C7\<close>: when neither blob is there (absent, or the empty string, which
  \<^verbatim>\<open>if (boxesJson)\<close> treats alike) the migration changes nothing at all. After a run
  that succeeded each blob that was there has been deleted, and a second run changes
  nothing: the state after it, the tables with it, is the state after the first.
\<close>

theorem migration_idempotent:
  "(\<not> truthy (localStorage w STORAGE_KEY_BOXES) \<and> \<not> truthy (localStorage w STORAGE_KEY_ITEMS) \<longrightarrow>
      migrateFromLocalStorage J w = w) \<and>
   (migration_succeeded J w \<longrightarrow>
      (truthy (localStorage w STORAGE_KEY_BOXES) \<longrightarrow>
         localStorage (migrateFromLocalStorage J w) STORAGE_KEY_BOXES = None) \<and>
      (truthy (localStorage w STORAGE_KEY_ITEMS) \<longrightarrow>
         localStorage (migrateFromLocalStorage J w) STORAGE_KEY_ITEMS = None) \<and>
      migrateFromLocalStorage J (migrateFromLocalStorage J w) = migrateFromLocalStorage J w \<and>
      db (migrateFromLocalStorage J (migrateFromLocalStorage J w)) =
        db (migrateFromLocalStorage J w))"
proof (intro conjI impI)
  assume "\<not> truthy (localStorage w STORAGE_KEY_BOXES) \<and> \<not> truthy (localStorage w STORAGE_KEY_ITEMS)"
  then show "migrateFromLocalStorage J w = w"
    by (simp add: migrate_absent)
next
  assume ok: "migration_succeeded J w"
  note blobs = migrate_succeeded_blobs [OF ok]
  show "localStorage (migrateFromLocalStorage J w) STORAGE_KEY_BOXES = None"
    if "truthy (localStorage w STORAGE_KEY_BOXES)"
    using that blobs(1) by simp
  show "localStorage (migrateFromLocalStorage J w) STORAGE_KEY_ITEMS = None"
    if "truthy (localStorage w STORAGE_KEY_ITEMS)"
    using that blobs(2) by simp
  have "\<not> truthy (localStorage (migrateFromLocalStorage J w) STORAGE_KEY_BOXES)"
    "\<not> truthy (localStorage (migrateFromLocalStorage J w) STORAGE_KEY_ITEMS)"
    unfolding blobs by (simp_all add: truthy_def)
  then show again:
    "migrateFromLocalStorage J (migrateFromLocalStorage J w) = migrateFromLocalStorage J w"
    by (rule migrate_absent)
  show "db (migrateFromLocalStorage J (migrateFromLocalStorage J w)) =
        db (migrateFromLocalStorage J w)"
    by (simp add: again)
qed

lemma sample_JSON_simps:
  "parse_boxes sample_JSON garage_json = Some [garage]"
  "parse_items sample_JSON tools_json = Some [saw, drill]"
  "parse_boxes sample_JSON ''{oops'' = None"
  "parse_items sample_JSON ''{oops'' = None"
  by (simp_all add: sample_JSON_def garage_json_def tools_json_def)

lemma blob_nonempty: "garage_json \<noteq> []" "tools_json \<noteq> []"
  by (simp_all add: garage_json_def tools_json_def)

lemma migrate_legacy_world:
  "migrateFromLocalStorage sample_JSON legacy_world =
     initial\<lparr>db := Some \<lparr>boxes_store = [(''b1'', garage)],
                          items_store = [(''i1'', drill), (''i2'', saw)]\<rparr>,
       console := [(Log, ''Migrating data from LocalStorage to IndexedDB...'')]\<rparr>"
proof -
  let ?w1 = "console_log ''Migrating data from LocalStorage to IndexedDB...'' legacy_world"
  have d1: "db ?w1 = Some empty_database" "idb_errors ?w1 = []"
    by (simp_all add: console_log_def legacy_world_def initial_def)
  have b: "migrate_boxes sample_JSON (Some garage_json) ?w1 =
      removeItem STORAGE_KEY_BOXES
        (?w1\<lparr>db := Some \<lparr>boxes_store = [(''b1'', garage)], items_store = []\<rparr>\<rparr>)"
    using putAll_ok [of BOXES ?w1 empty_database "[garage]", OF BOXES_laws(1,2,3) d1]
    by (simp add: migrate_boxes_def migrate_collection_def sample_JSON_simps blob_nonempty
        put_each_def BOXES_def empty_database_def garage_def)
  let ?w2 = "removeItem STORAGE_KEY_BOXES
        (?w1\<lparr>db := Some \<lparr>boxes_store = [(''b1'', garage)], items_store = []\<rparr>\<rparr>)"
  have d2: "db ?w2 = Some \<lparr>boxes_store = [(''b1'', garage)], items_store = []\<rparr>"
    "idb_errors ?w2 = []"
    by (simp_all add: removeItem_def console_log_def legacy_world_def initial_def)
  have i: "migrate_items sample_JSON (Some tools_json) ?w2 =
      removeItem STORAGE_KEY_ITEMS
        (?w2\<lparr>db := Some \<lparr>boxes_store = [(''b1'', garage)],
                             items_store = [(''i1'', drill), (''i2'', saw)]\<rparr>\<rparr>)"
    using putAll_ok [of ITEMS ?w2 _ "[saw, drill]", OF ITEMS_laws(1,2,3) d2]
    by (simp add: migrate_items_def migrate_collection_def sample_JSON_simps blob_nonempty
        put_each_def ITEMS_def saw_def drill_def)
  have ls: "localStorage legacy_world STORAGE_KEY_BOXES = Some garage_json"
    "localStorage legacy_world STORAGE_KEY_ITEMS = Some tools_json"
    by (simp_all add: legacy_world_def keys_differ)
  show ?thesis
    unfolding migrateFromLocalStorage_def Let_def ls b i
    by (simp add: truthy_def blob_nonempty removeItem_def console_log_def legacy_world_def
        initial_def keys_differ)
qed

theorem migration_idempotent_witness:
  "\<not> truthy (localStorage initial STORAGE_KEY_BOXES) \<and>
   \<not> truthy (localStorage initial STORAGE_KEY_ITEMS) \<and>
   migrateFromLocalStorage sample_JSON initial = initial \<and>
   migration_succeeded sample_JSON legacy_world \<and>
   truthy (localStorage legacy_world STORAGE_KEY_BOXES) \<and>
   truthy (localStorage legacy_world STORAGE_KEY_ITEMS) \<and>
   localStorage (migrateFromLocalStorage sample_JSON legacy_world) = Map.empty \<and>
   db (migrateFromLocalStorage sample_JSON legacy_world) =
     Some \<lparr>boxes_store = [(''b1'', garage)], items_store = [(''i1'', drill), (''i2'', saw)]\<rparr> \<and>
   migrateFromLocalStorage sample_JSON (migrateFromLocalStorage sample_JSON legacy_world) =
     migrateFromLocalStorage sample_JSON legacy_world"
  using migration_idempotent [of initial sample_JSON]
    migration_idempotent [of legacy_world sample_JSON]
  by (simp add: migration_succeeded_def migrate_legacy_world error_count_def)
    (simp add: legacy_world_def initial_def truthy_def blob_nonempty keys_differ)

lemma putToStore_console:
  "putToStore s v (w\<lparr>console := c\<rparr>) =
     (fst (putToStore s v w), (snd (putToStore s v w))\<lparr>console := c\<rparr>)"
  by (simp add: putToStore_def next_request_def split: option.splits list.splits bool.splits)

lemma putAll_console:
  "putAll s rs (w\<lparr>console := c\<rparr>) = (fst (putAll s rs w), (snd (putAll s rs w))\<lparr>console := c\<rparr>)"
proof (induction rs arbitrary: w)
  case Nil
  show ?case by simp
next
  case (Cons r rs)
  obtain res w' where step: "putToStore s r w = (res, w')"
    by (cases "putToStore s r w")
  have step': "putToStore s r (w\<lparr>console := c\<rparr>) = (res, w'\<lparr>console := c\<rparr>)"
    by (simp add: putToStore_console step)
  show ?case
    using Cons.IH [of w'] by (cases res) (simp_all add: step step')
qed

lemma migrate_collection_console:
  "db (migrate_collection parse s key msg json (w\<lparr>console := c\<rparr>)) =
     db (migrate_collection parse s key msg json w)"
  "localStorage (migrate_collection parse s key msg json (w\<lparr>console := c\<rparr>)) =
     localStorage (migrate_collection parse s key msg json w)"
proof -
  have "db (migrate_collection parse s key msg json (w\<lparr>console := c\<rparr>)) =
     db (migrate_collection parse s key msg json w) \<and>
    localStorage (migrate_collection parse s key msg json (w\<lparr>console := c\<rparr>)) =
     localStorage (migrate_collection parse s key msg json w)"
  proof (cases "parse json")
    case None
    then show ?thesis
      by (simp add: migrate_collection_def console_error_def)
  next
    case (Some rs)
    obtain res w' where run: "putAll s rs w = (res, w')"
      by (cases "putAll s rs w")
    have run': "putAll s rs (w\<lparr>console := c\<rparr>) = (res, w'\<lparr>console := c\<rparr>)"
      by (simp add: putAll_console run)
    show ?thesis
      by (cases res) (simp_all add: migrate_collection_def Some run run' console_error_def
          removeItem_def)
  qed
  then show "db (migrate_collection parse s key msg json (w\<lparr>console := c\<rparr>)) =
     db (migrate_collection parse s key msg json w)"
    and "localStorage (migrate_collection parse s key msg json (w\<lparr>console := c\<rparr>)) =
     localStorage (migrate_collection parse s key msg json w)"
    by simp_all
qed

lemma migrate_boxes_console:
  "db (migrate_boxes J bj (w\<lparr>console := c\<rparr>)) = db (migrate_boxes J bj w)"
  "localStorage (migrate_boxes J bj (w\<lparr>console := c\<rparr>)) = localStorage (migrate_boxes J bj w)"
  by (simp_all add: migrate_boxes_def migrate_collection_console split: option.splits)

lemma migrate_items_console:
  "db (migrate_items J ij (w\<lparr>console := c\<rparr>)) = db (migrate_items J ij w)"
  "localStorage (migrate_items J ij (w\<lparr>console := c\<rparr>)) = localStorage (migrate_items J ij w)"
  by (simp_all add: migrate_items_def migrate_collection_console split: option.splits)

lemma migrate_boxes_other_key:
  "k \<noteq> STORAGE_KEY_BOXES \<Longrightarrow> localStorage (migrate_boxes J bj w) k = localStorage w k"
  using migrate_boxes_outcome [of J bj w] by (elim disjE conjE) simp_all

lemma migrate_items_other_key:
  "k \<noteq> STORAGE_KEY_ITEMS \<Longrightarrow> localStorage (migrate_items J ij w) k = localStorage w k"
  using migrate_items_outcome [of J ij w] by (elim disjE conjE) simp_all

lemma putToStore_other_store:
  "map_option boxes_store (db (snd (putToStore ITEMS v w))) = map_option boxes_store (db w)"
  "map_option items_store (db (snd (putToStore BOXES b w))) = map_option items_store (db w)"
  by (simp_all add: putToStore_def next_request_def BOXES_def ITEMS_def
      split: option.splits list.splits bool.splits)

lemma putAll_other_store:
  "map_option boxes_store (db (snd (putAll ITEMS its w))) = map_option boxes_store (db w)"
  "map_option items_store (db (snd (putAll BOXES bs w))) = map_option items_store (db w)"
  by (rule putAll_preserves, rule putToStore_other_store)+

lemma migrate_items_boxes_store:
  "map_option boxes_store (db (migrate_items J ij w)) = map_option boxes_store (db w)"
proof (cases ij)
  case None
  then show ?thesis by (simp add: migrate_items_def)
next
  case (Some json)
  show ?thesis
  proof (cases "parse_items J json")
    case None
    then show ?thesis
      by (simp add: migrate_items_def Some migrate_collection_def console_error_def)
  next
    case (Some its)
    obtain res w' where run: "putAll ITEMS its w = (res, w')"
      by (cases "putAll ITEMS its w")
    have "map_option boxes_store (db w') = map_option boxes_store (db w)"
      using putAll_other_store(1) [of its w] by (simp add: run)
    then show ?thesis
      by (cases res) (simp_all add: migrate_items_def \<open>ij = Some json\<close> Some
          migrate_collection_def run console_error_def removeItem_def)
  qed
qed

lemma migrate_boxes_items_store:
  "map_option items_store (db (migrate_boxes J bj w)) = map_option items_store (db w)"
proof (cases bj)
  case None
  then show ?thesis by (simp add: migrate_boxes_def)
next
  case (Some json)
  show ?thesis
  proof (cases "parse_boxes J json")
    case None
    then show ?thesis
      by (simp add: migrate_boxes_def Some migrate_collection_def console_error_def)
  next
    case (Some bs)
    obtain res w' where run: "putAll BOXES bs w = (res, w')"
      by (cases "putAll BOXES bs w")
    have "map_option items_store (db w') = map_option items_store (db w)"
      using putAll_other_store(2) [of bs w] by (simp add: run)
    then show ?thesis
      by (cases res) (simp_all add: migrate_boxes_def \<open>bj = Some json\<close> Some
          migrate_collection_def run console_error_def removeItem_def)
  qed
qed

lemma migrate_collection_console_grows:
  "e \<in> set (console w) \<Longrightarrow> e \<in> set (console (migrate_collection parse s key msg json w))"
proof (cases "parse json")
  case None
  assume "e \<in> set (console w)"
  then show ?thesis
    by (simp add: migrate_collection_def None console_error_def)
next
  case (Some rs)
  assume e: "e \<in> set (console w)"
  obtain res w' where run: "putAll s rs w = (res, w')"
    by (cases "putAll s rs w")
  have "console w' = console w"
    using putAll_frame(5) [of s rs w] by (simp add: run)
  then show ?thesis
    using e by (cases res) (simp_all add: migrate_collection_def Some run console_error_def
        removeItem_def)
qed

lemma migrate_items_console_grows:
  "e \<in> set (console w) \<Longrightarrow> e \<in> set (console (migrate_items J ij w))"
  by (simp add: migrate_items_def migrate_collection_console_grows split: option.splits)

lemma migrate_boxes_parse_fails:
  "s \<noteq> [] \<Longrightarrow> parse_boxes J s = None \<Longrightarrow>
   migrate_boxes J (Some s) w = console_error ''Error migrating boxes'' w"
  by (simp add: migrate_boxes_def migrate_collection_def)

lemma migrate_items_parse_fails:
  "s \<noteq> [] \<Longrightarrow> parse_items J s = None \<Longrightarrow>
   migrate_items J (Some s) w = console_error ''Error migrating items'' w"
  by (simp add: migrate_items_def migrate_collection_def)

lemma boxes_blob_fails:
  assumes "localStorage w STORAGE_KEY_BOXES = Some s" "s \<noteq> []" "parse_boxes J s = None"
  shows "localStorage (migrateFromLocalStorage J w) STORAGE_KEY_BOXES = Some s"
    and "map_option boxes_store (db (migrateFromLocalStorage J w)) = map_option boxes_store (db w)"
    and "(Error, ''Error migrating boxes'') \<in> set (console (migrateFromLocalStorage J w))"
    and "localStorage (migrateFromLocalStorage J w) STORAGE_KEY_ITEMS =
           localStorage (migrate_items J (localStorage w STORAGE_KEY_ITEMS) w) STORAGE_KEY_ITEMS"
    and "db (migrateFromLocalStorage J w) =
           db (migrate_items J (localStorage w STORAGE_KEY_ITEMS) w)"
proof -
  let ?ij = "localStorage w STORAGE_KEY_ITEMS"
  let ?c = "console w @ [(Log, ''Migrating data from LocalStorage to IndexedDB...'')]
              @ [(Error, ''Error migrating boxes'')]"
  have pre: "console_error ''Error migrating boxes''
      (console_log ''Migrating data from LocalStorage to IndexedDB...'' w) = w\<lparr>console := ?c\<rparr>"
    by (simp add: console_error_def console_log_def)
  have run: "migrateFromLocalStorage J w = migrate_items J ?ij (w\<lparr>console := ?c\<rparr>)"
    using assms
    by (simp add: migrateFromLocalStorage_def Let_def truthy_def migrate_boxes_parse_fails pre)
  show "localStorage (migrateFromLocalStorage J w) STORAGE_KEY_BOXES = Some s"
    using assms(1) keys_differ by (simp add: run migrate_items_other_key)
  show "map_option boxes_store (db (migrateFromLocalStorage J w)) = map_option boxes_store (db w)"
    by (simp add: run migrate_items_boxes_store)
  show "(Error, ''Error migrating boxes'') \<in> set (console (migrateFromLocalStorage J w))"
    unfolding run by (rule migrate_items_console_grows) simp
  show "localStorage (migrateFromLocalStorage J w) STORAGE_KEY_ITEMS =
           localStorage (migrate_items J ?ij w) STORAGE_KEY_ITEMS"
    by (simp add: run migrate_items_console)
  show "db (migrateFromLocalStorage J w) = db (migrate_items J ?ij w)"
    by (simp add: run migrate_items_console)
qed

lemma items_blob_fails:
  assumes "localStorage w STORAGE_KEY_ITEMS = Some s" "s \<noteq> []" "parse_items J s = None"
  shows "localStorage (migrateFromLocalStorage J w) STORAGE_KEY_ITEMS = Some s"
    and "map_option items_store (db (migrateFromLocalStorage J w)) = map_option items_store (db w)"
    and "(Error, ''Error migrating items'') \<in> set (console (migrateFromLocalStorage J w))"
    and "localStorage (migrateFromLocalStorage J w) STORAGE_KEY_BOXES =
           localStorage (migrate_boxes J (localStorage w STORAGE_KEY_BOXES) w) STORAGE_KEY_BOXES"
    and "db (migrateFromLocalStorage J w) =
           db (migrate_boxes J (localStorage w STORAGE_KEY_BOXES) w)"
proof -
  let ?bj = "localStorage w STORAGE_KEY_BOXES"
  let ?c = "console w @ [(Log, ''Migrating data from LocalStorage to IndexedDB...'')]"
  have pre: "console_log ''Migrating data from LocalStorage to IndexedDB...'' w = w\<lparr>console := ?c\<rparr>"
    by (simp add: console_log_def)
  have run: "migrateFromLocalStorage J w =
      console_error ''Error migrating items'' (migrate_boxes J ?bj (w\<lparr>console := ?c\<rparr>))"
    using assms
    by (simp add: migrateFromLocalStorage_def Let_def truthy_def migrate_items_parse_fails pre)
  show "localStorage (migrateFromLocalStorage J w) STORAGE_KEY_ITEMS = Some s"
    using assms(1) keys_differ
    by (simp add: run localStorage_simps migrate_boxes_other_key)
  show "map_option items_store (db (migrateFromLocalStorage J w)) = map_option items_store (db w)"
    by (simp add: run console_error_def migrate_boxes_items_store)
  show "(Error, ''Error migrating items'') \<in> set (console (migrateFromLocalStorage J w))"
    by (simp add: run console_error_def)
  show "localStorage (migrateFromLocalStorage J w) STORAGE_KEY_BOXES =
           localStorage (migrate_boxes J ?bj w) STORAGE_KEY_BOXES"
    by (simp add: run localStorage_simps migrate_boxes_console)
  show "db (migrateFromLocalStorage J w) = db (migrate_boxes J ?bj w)"
    by (simp add: run console_error_def migrate_boxes_console)
qed

text \<open>
  \<^bold>\<open>C8\<close>: when the boxes blob is there and does not parse, the run leaves that blob in
  place, leaves the boxes table as it was and logs \<^verbatim>\<open>Error migrating boxes\<close>; the items
  blob and the tables end as the items block alone, run on the state before, leaves
  them. Likewise with boxes and items exchanged.
\<close>

theorem migration_parse_failure:
  "(localStorage w STORAGE_KEY_BOXES = Some s \<and> s \<noteq> [] \<and> parse_boxes J s = None \<longrightarrow>
      localStorage (migrateFromLocalStorage J w) STORAGE_KEY_BOXES = Some s \<and>
      map_option boxes_store (db (migrateFromLocalStorage J w)) = map_option boxes_store (db w) \<and>
      (Error, ''Error migrating boxes'') \<in> set (console (migrateFromLocalStorage J w)) \<and>
      localStorage (migrateFromLocalStorage J w) STORAGE_KEY_ITEMS =
        localStorage (migrate_items J (localStorage w STORAGE_KEY_ITEMS) w) STORAGE_KEY_ITEMS \<and>
      db (migrateFromLocalStorage J w) =
        db (migrate_items J (localStorage w STORAGE_KEY_ITEMS) w)) \<and>
   (localStorage w STORAGE_KEY_ITEMS = Some s \<and> s \<noteq> [] \<and> parse_items J s = None \<longrightarrow>
      localStorage (migrateFromLocalStorage J w) STORAGE_KEY_ITEMS = Some s \<and>
      map_option items_store (db (migrateFromLocalStorage J w)) = map_option items_store (db w) \<and>
      (Error, ''Error migrating items'') \<in> set (console (migrateFromLocalStorage J w)) \<and>
      localStorage (migrateFromLocalStorage J w) STORAGE_KEY_BOXES =
        localStorage (migrate_boxes J (localStorage w STORAGE_KEY_BOXES) w) STORAGE_KEY_BOXES \<and>
      db (migrateFromLocalStorage J w) =
        db (migrate_boxes J (localStorage w STORAGE_KEY_BOXES) w))"
proof (intro conjI impI)
  assume a: "localStorage w STORAGE_KEY_BOXES = Some s \<and> s \<noteq> [] \<and> parse_boxes J s = None"
  then have a': "localStorage w STORAGE_KEY_BOXES = Some s" "s \<noteq> []" "parse_boxes J s = None"
    by simp_all
  show "localStorage (migrateFromLocalStorage J w) STORAGE_KEY_BOXES = Some s"
    using a' by (rule boxes_blob_fails(1))
  show "map_option boxes_store (db (migrateFromLocalStorage J w)) = map_option boxes_store (db w)"
    using a' by (rule boxes_blob_fails(2))
  show "(Error, ''Error migrating boxes'') \<in> set (console (migrateFromLocalStorage J w))"
    using a' by (rule boxes_blob_fails(3))
  show "localStorage (migrateFromLocalStorage J w) STORAGE_KEY_ITEMS =
        localStorage (migrate_items J (localStorage w STORAGE_KEY_ITEMS) w) STORAGE_KEY_ITEMS"
    using a' by (rule boxes_blob_fails(4))
  show "db (migrateFromLocalStorage J w) =
        db (migrate_items J (localStorage w STORAGE_KEY_ITEMS) w)"
    using a' by (rule boxes_blob_fails(5))
next
  assume a: "localStorage w STORAGE_KEY_ITEMS = Some s \<and> s \<noteq> [] \<and> parse_items J s = None"
  then have a': "localStorage w STORAGE_KEY_ITEMS = Some s" "s \<noteq> []" "parse_items J s = None"
    by simp_all
  show "localStorage (migrateFromLocalStorage J w) STORAGE_KEY_ITEMS = Some s"
    using a' by (rule items_blob_fails(1))
  show "map_option items_store (db (migrateFromLocalStorage J w)) = map_option items_store (db w)"
    using a' by (rule items_blob_fails(2))
  show "(Error, ''Error migrating items'') \<in> set (console (migrateFromLocalStorage J w))"
    using a' by (rule items_blob_fails(3))
  show "localStorage (migrateFromLocalStorage J w) STORAGE_KEY_BOXES =
        localStorage (migrate_boxes J (localStorage w STORAGE_KEY_BOXES) w) STORAGE_KEY_BOXES"
    using a' by (rule items_blob_fails(4))
  show "db (migrateFromLocalStorage J w) =
        db (migrate_boxes J (localStorage w STORAGE_KEY_BOXES) w)"
    using a' by (rule items_blob_fails(5))
qed

lemma migrate_corrupt_boxes_world:
  "migrateFromLocalStorage sample_JSON corrupt_boxes_world =
     initial\<lparr>db := Some \<lparr>boxes_store = [], items_store = [(''i1'', drill), (''i2'', saw)]\<rparr>,
       localStorage := [STORAGE_KEY_BOXES \<mapsto> ''{oops''],
       console := [(Log, ''Migrating data from LocalStorage to IndexedDB...''),
                   (Error, ''Error migrating boxes'')]\<rparr>"
proof -
  let ?w1 = "console_error ''Error migrating boxes''
      (console_log ''Migrating data from LocalStorage to IndexedDB...'' corrupt_boxes_world)"
  have d1: "db ?w1 = Some empty_database" "idb_errors ?w1 = []"
    by (simp_all add: console_log_def console_error_def corrupt_boxes_world_def initial_def)
  have i: "migrate_items sample_JSON (Some tools_json) ?w1 =
      removeItem STORAGE_KEY_ITEMS
        (?w1\<lparr>db := Some \<lparr>boxes_store = [], items_store = [(''i1'', drill), (''i2'', saw)]\<rparr>\<rparr>)"
    using putAll_ok [of ITEMS ?w1 _ "[saw, drill]", OF ITEMS_laws(1,2,3) d1]
    by (simp add: migrate_items_def migrate_collection_def sample_JSON_simps blob_nonempty
        put_each_def ITEMS_def saw_def drill_def empty_database_def)
  have ls: "localStorage corrupt_boxes_world STORAGE_KEY_BOXES = Some ''{oops''"
    "localStorage corrupt_boxes_world STORAGE_KEY_ITEMS = Some tools_json"
    by (simp_all add: corrupt_boxes_world_def keys_differ)
  have b: "migrate_boxes sample_JSON (Some ''{oops'') w = console_error ''Error migrating boxes'' w"
    for w by (simp add: migrate_boxes_parse_fails sample_JSON_simps)
  show ?thesis
    unfolding migrateFromLocalStorage_def Let_def ls b i
    by (simp add: truthy_def blob_nonempty removeItem_def console_log_def console_error_def
        corrupt_boxes_world_def initial_def keys_differ fun_upd_twist)
qed

lemma migrate_corrupt_items_world:
  "migrateFromLocalStorage sample_JSON corrupt_items_world =
     initial\<lparr>db := Some \<lparr>boxes_store = [(''b1'', garage)], items_store = []\<rparr>,
       localStorage := [STORAGE_KEY_ITEMS \<mapsto> ''{oops''],
       console := [(Log, ''Migrating data from LocalStorage to IndexedDB...''),
                   (Error, ''Error migrating items'')]\<rparr>"
proof -
  let ?w1 = "console_log ''Migrating data from LocalStorage to IndexedDB...'' corrupt_items_world"
  have d1: "db ?w1 = Some empty_database" "idb_errors ?w1 = []"
    by (simp_all add: console_log_def corrupt_items_world_def initial_def)
  have b: "migrate_boxes sample_JSON (Some garage_json) ?w1 =
      removeItem STORAGE_KEY_BOXES
        (?w1\<lparr>db := Some \<lparr>boxes_store = [(''b1'', garage)], items_store = []\<rparr>\<rparr>)"
    using putAll_ok [of BOXES ?w1 empty_database "[garage]", OF BOXES_laws(1,2,3) d1]
    by (simp add: migrate_boxes_def migrate_collection_def sample_JSON_simps blob_nonempty
        put_each_def BOXES_def empty_database_def garage_def)
  have ls: "localStorage corrupt_items_world STORAGE_KEY_BOXES = Some garage_json"
    "localStorage corrupt_items_world STORAGE_KEY_ITEMS = Some ''{oops''"
    by (simp_all add: corrupt_items_world_def keys_differ)
  have i: "migrate_items sample_JSON (Some ''{oops'') w = console_error ''Error migrating items'' w"
    for w by (simp add: migrate_items_parse_fails sample_JSON_simps)
  show ?thesis
    unfolding migrateFromLocalStorage_def Let_def ls b i
    by (simp add: truthy_def blob_nonempty removeItem_def console_log_def console_error_def
        corrupt_items_world_def initial_def keys_differ)
qed

theorem migration_parse_failure_witness:
  "localStorage corrupt_boxes_world STORAGE_KEY_BOXES = Some ''{oops'' \<and> ''{oops'' \<noteq> [] \<and>
   parse_boxes sample_JSON ''{oops'' = None \<and>
   localStorage (migrateFromLocalStorage sample_JSON corrupt_boxes_world) =
     [STORAGE_KEY_BOXES \<mapsto> ''{oops''] \<and>
   db (migrateFromLocalStorage sample_JSON corrupt_boxes_world) =
     Some \<lparr>boxes_store = [], items_store = [(''i1'', drill), (''i2'', saw)]\<rparr> \<and>
   localStorage corrupt_items_world STORAGE_KEY_ITEMS = Some ''{oops'' \<and>
   parse_items sample_JSON ''{oops'' = None \<and>
   localStorage (migrateFromLocalStorage sample_JSON corrupt_items_world) =
     [STORAGE_KEY_ITEMS \<mapsto> ''{oops''] \<and>
   db (migrateFromLocalStorage sample_JSON corrupt_items_world) =
     Some \<lparr>boxes_store = [(''b1'', garage)], items_store = []\<rparr>"
  using migration_parse_failure [of corrupt_boxes_world "''{oops''" sample_JSON]
    migration_parse_failure [of corrupt_items_world "''{oops''" sample_JSON]
  by (simp add: migrate_corrupt_boxes_world migrate_corrupt_items_world sample_JSON_simps)
    (simp add: corrupt_boxes_world_def corrupt_items_world_def initial_def keys_differ)

section \<open>Failures during load\<close>

lemma loadFromStorage_boxes_fail:
  "localStorage w STORAGE_KEY_BOXES = Some s \<Longrightarrow> s \<noteq> [] \<Longrightarrow> parse_boxes J s = None \<Longrightarrow>
   loadFromStorage J w = (Inl SyntaxError, w)"
  by (simp add: loadFromStorage_def)

lemma loadFromStorage_items_fail_only:
  "\<not> truthy (localStorage w STORAGE_KEY_BOXES) \<Longrightarrow>
   localStorage w STORAGE_KEY_ITEMS = Some s \<Longrightarrow> s \<noteq> [] \<Longrightarrow> parse_items J s = None \<Longrightarrow>
   loadFromStorage J w = (Inl SyntaxError, w)"
  by (simp add: loadFromStorage_def truthy_def split: option.splits)

lemma loadFromStorage_items_fail:
  "localStorage w STORAGE_KEY_BOXES = Some t \<Longrightarrow> t \<noteq> [] \<Longrightarrow> parse_boxes J t = Some bs \<Longrightarrow>
   localStorage w STORAGE_KEY_ITEMS = Some s \<Longrightarrow> s \<noteq> [] \<Longrightarrow> parse_items J s = None \<Longrightarrow>
   loadFromStorage J w = (Inl SyntaxError, w\<lparr>boxes := bs\<rparr>)"
  by (simp add: loadFromStorage_def)

lemma loadData_first_read_fails:
  "db w = Some d \<Longrightarrow> idb_errors w = True # es \<Longrightarrow>
   loadData w = console_error ''Error loading data from DB'' (w\<lparr>idb_errors := es\<rparr>)"
  by (simp add: loadData_def getAllFromStore_def next_request_def)

lemma loadData_second_read_fails:
  "db w = Some d \<Longrightarrow> idb_errors w = False # True # es \<Longrightarrow>
   loadData w = console_error ''Error loading data from DB'' (w\<lparr>idb_errors := es\<rparr>)"
  by (simp add: loadData_def getAllFromStore_def next_request_def)

lemma corrupt_world_blobs:
  "localStorage corrupt_boxes_world STORAGE_KEY_BOXES = Some ''{oops''"
  "localStorage corrupt_boxes_world STORAGE_KEY_ITEMS = Some tools_json"
  "localStorage corrupt_items_world STORAGE_KEY_BOXES = Some garage_json"
  "localStorage corrupt_items_world STORAGE_KEY_ITEMS = Some ''{oops''"
  by (simp_all add: corrupt_boxes_world_def corrupt_items_world_def keys_differ)

lemma load_corrupt_boxes_world:
  "loadFromStorage sample_JSON corrupt_boxes_world = (Inl SyntaxError, corrupt_boxes_world)"
  by (rule loadFromStorage_boxes_fail [OF corrupt_world_blobs(1)])
    (simp_all add: sample_JSON_simps)

lemma load_corrupt_items_world:
  "loadFromStorage sample_JSON corrupt_items_world =
     (Inl SyntaxError, corrupt_items_world\<lparr>boxes := [garage]\<rparr>)"
  by (rule loadFromStorage_items_fail [OF corrupt_world_blobs(3) _ _ corrupt_world_blobs(4)])
    (simp_all add: sample_JSON_simps blob_nonempty)

text \<open>
  \<^bold>\<open>C9\<close>, as the specification states it: a blob that does not parse during load is
  logged, its collection is empty, no exception leaves the load and the other
  collection is not affected. With a boxes blob that is not JSON and an items blob that
  parses, \<^verbatim>\<open>loadFromStorage\<close> ends with the \<^verbatim>\<open>SyntaxError\<close>, the console is empty, and
  the items have not been loaded.
\<close>

theorem loadFromStorage_malformed_counterexample:
  "localStorage corrupt_boxes_world STORAGE_KEY_BOXES = Some ''{oops'' \<and>
   parse_boxes sample_JSON ''{oops'' = None \<and>
   localStorage corrupt_boxes_world STORAGE_KEY_ITEMS = Some tools_json \<and>
   parse_items sample_JSON tools_json = Some [saw, drill] \<and>
   loadFromStorage sample_JSON corrupt_boxes_world = (Inl SyntaxError, corrupt_boxes_world) \<and>
   console corrupt_boxes_world = [] \<and> items corrupt_boxes_world = []"
  by (simp add: load_corrupt_boxes_world corrupt_world_blobs sample_JSON_simps)
    (simp add: corrupt_boxes_world_def initial_def)

text \<open>
  \<^bold>\<open>C9\<close>, amended. On localStorage the load has no error handling: when a blob does not
  parse, the \<^verbatim>\<open>SyntaxError\<close> leaves \<^verbatim>\<open>loadFromStorage\<close>, nothing is logged, and the
  collection of that blob keeps its contents (empty at start-up); a failing boxes blob
  keeps the items from being loaded as well, a failing items blob leaves the boxes
  loaded. On IndexedDB the load parses no JSON: when the read of either table fails, the
  failure is logged, \<^verbatim>\<open>loadData\<close> returns normally, and both collections keep their
  contents.
\<close>

theorem load_failure:
  "(localStorage w STORAGE_KEY_BOXES = Some s \<and> s \<noteq> [] \<and> parse_boxes J s = None \<longrightarrow>
      loadFromStorage J w = (Inl SyntaxError, w)) \<and>
   (\<not> truthy (localStorage w STORAGE_KEY_BOXES) \<and>
    localStorage w STORAGE_KEY_ITEMS = Some s \<and> s \<noteq> [] \<and> parse_items J s = None \<longrightarrow>
      loadFromStorage J w = (Inl SyntaxError, w)) \<and>
   (localStorage w STORAGE_KEY_BOXES = Some t \<and> t \<noteq> [] \<and> parse_boxes J t = Some bs \<and>
    localStorage w STORAGE_KEY_ITEMS = Some s \<and> s \<noteq> [] \<and> parse_items J s = None \<longrightarrow>
      loadFromStorage J w = (Inl SyntaxError, w\<lparr>boxes := bs\<rparr>)) \<and>
   (db w = Some d \<and> (idb_errors w = True # es \<or> idb_errors w = False # True # es) \<longrightarrow>
      loadData w = console_error ''Error loading data from DB'' (w\<lparr>idb_errors := es\<rparr>) \<and>
      boxes (loadData w) = boxes w \<and> items (loadData w) = items w \<and>
      console (loadData w) = console w @ [(Error, ''Error loading data from DB'')])"
proof (intro conjI impI)
  assume "localStorage w STORAGE_KEY_BOXES = Some s \<and> s \<noteq> [] \<and> parse_boxes J s = None"
  then show "loadFromStorage J w = (Inl SyntaxError, w)"
    by (simp add: loadFromStorage_boxes_fail)
next
  assume "\<not> truthy (localStorage w STORAGE_KEY_BOXES) \<and>
    localStorage w STORAGE_KEY_ITEMS = Some s \<and> s \<noteq> [] \<and> parse_items J s = None"
  then show "loadFromStorage J w = (Inl SyntaxError, w)"
    by (simp add: loadFromStorage_items_fail_only)
next
  assume "localStorage w STORAGE_KEY_BOXES = Some t \<and> t \<noteq> [] \<and> parse_boxes J t = Some bs \<and>
    localStorage w STORAGE_KEY_ITEMS = Some s \<and> s \<noteq> [] \<and> parse_items J s = None"
  then show "loadFromStorage J w = (Inl SyntaxError, w\<lparr>boxes := bs\<rparr>)"
    by (simp add: loadFromStorage_items_fail)
next
  assume a: "db w = Some d \<and> (idb_errors w = True # es \<or> idb_errors w = False # True # es)"
  then show run: "loadData w = console_error ''Error loading data from DB'' (w\<lparr>idb_errors := es\<rparr>)"
    using loadData_first_read_fails [of w d es] loadData_second_read_fails [of w d es] by blast
  show "boxes (loadData w) = boxes w" "items (loadData w) = items w"
    "console (loadData w) = console w @ [(Error, ''Error loading data from DB'')]"
    by (simp_all add: run console_error_def)
qed

lemma failing_read_world_simps:
  "db failing_read_world = Some empty_database"
  "idb_errors failing_read_world = [False, True]"
  "boxes failing_read_world = [garage]"
  "console failing_read_world = []"
  by (simp_all add: failing_read_world_def tool_world_signals)
    (simp add: tool_world_def garage_world_def addItem_def addBox_def Let_def putToStore_frame
      initial_def split: option.splits)

lemma items_only_world_blobs:
  "localStorage items_only_world STORAGE_KEY_BOXES = None"
  "localStorage items_only_world STORAGE_KEY_ITEMS = Some ''{oops''"
  by (simp_all add: items_only_world_def initial_def keys_differ)

lemma load_items_only_world:
  "loadFromStorage sample_JSON items_only_world = (Inl SyntaxError, items_only_world)"
  by (rule loadFromStorage_items_fail_only [OF _ items_only_world_blobs(2)])
    (simp_all add: items_only_world_blobs truthy_def sample_JSON_simps)

theorem load_failure_witness:
  "localStorage corrupt_boxes_world STORAGE_KEY_BOXES = Some ''{oops'' \<and>
   parse_boxes sample_JSON ''{oops'' = None \<and>
   loadFromStorage sample_JSON corrupt_boxes_world = (Inl SyntaxError, corrupt_boxes_world) \<and>
   \<not> truthy (localStorage items_only_world STORAGE_KEY_BOXES) \<and>
   localStorage items_only_world STORAGE_KEY_ITEMS = Some ''{oops'' \<and>
   loadFromStorage sample_JSON items_only_world = (Inl SyntaxError, items_only_world) \<and>
   localStorage corrupt_items_world STORAGE_KEY_BOXES = Some garage_json \<and>
   parse_boxes sample_JSON garage_json = Some [garage] \<and>
   localStorage corrupt_items_world STORAGE_KEY_ITEMS = Some ''{oops'' \<and>
   parse_items sample_JSON ''{oops'' = None \<and>
   loadFromStorage sample_JSON corrupt_items_world =
     (Inl SyntaxError, corrupt_items_world\<lparr>boxes := [garage]\<rparr>) \<and>
   db failing_read_world = Some empty_database \<and>
   idb_errors failing_read_world = [False, True] \<and>
   boxes (loadData failing_read_world) = [garage] \<and>
   console (loadData failing_read_world) = [(Error, ''Error loading data from DB'')]"
  using load_failure [of corrupt_boxes_world "''{oops''" sample_JSON]
    load_failure [of items_only_world "''{oops''" sample_JSON]
    load_failure [of corrupt_items_world "''{oops''" sample_JSON garage_json "[garage]"]
    load_failure [of failing_read_world _ _ _ _ empty_database "[]"]
  by (simp add: sample_JSON_simps blob_nonempty corrupt_world_blobs load_corrupt_boxes_world
      load_corrupt_items_world failing_read_world_simps console_error_def
      items_only_world_blobs load_items_only_world truthy_def)

end
